theory Spec2Isabelle
  imports Main
begin

section \<open>Rows and responses\<close>

text \<open>
  The structs of \<^verbatim>\<open>livestream_handler.go\<close> and \<^verbatim>\<open>reaction_handler.go\<close>, field by
  field. Go's \<^verbatim>\<open>int64\<close> values are integers: the two files compare and copy them, the
  database computes \<^verbatim>\<open>slot - 1\<close>, and the one place where Go adds to them,
  \<^verbatim>\<open>time.Unix\<close>, has its wrap-around written out (\<open>timeUnix\<close>).
  Field names are shared between structs, so they are written qualified,
  \<open>LivestreamModel.ID\<close>.
\<close>

record ReserveLivestreamRequest =
  Tags :: "int list"
  Title :: string
  Description :: string
  PlaylistUrl :: string
  ThumbnailUrl :: string
  StartAt :: int
  EndAt :: int

record LivestreamModel =
  ID :: int
  UserID :: int
  Title :: string
  Description :: string
  PlaylistUrl :: string
  ThumbnailUrl :: string
  StartAt :: int
  EndAt :: int

record LivestreamTagModel =
  ID :: int
  LivestreamID :: int
  TagID :: int

record ReservationSlotModel =
  ID :: int
  Slot :: int
  StartAt :: int
  EndAt :: int

text \<open>
  \<^verbatim>\<open>TagModel\<close>, \<^verbatim>\<open>Tag\<close> and \<^verbatim>\<open>UserModel\<close> are declared outside the two files,
  which read \<^verbatim>\<open>tagModel.ID\<close> and \<^verbatim>\<open>tagModel.Name\<close>, build \<^verbatim>\<open>Tag{ID, Name}\<close>, and
  select users by \<^verbatim>\<open>id\<close> and by \<^verbatim>\<open>name\<close>. Those are the fields kept here. The
  response type \<^verbatim>\<open>User\<close> is never inspected by the two files: it is the type
  parameter \<open>'u\<close>.
\<close>

record TagModel =
  ID :: int
  Name :: string

record Tag =
  ID :: int
  Name :: string

record UserModel =
  ID :: int
  Name :: string

record 'u Livestream =
  ID :: int
  Owner :: 'u
  Title :: string
  Description :: string
  PlaylistUrl :: string
  ThumbnailUrl :: string
  Tags :: "Tag list"
  StartAt :: int
  EndAt :: int

record ReactionModel =
  ID :: int
  EmojiName :: string
  UserID :: int
  LivestreamID :: int
  CreatedAt :: int

record 'u Reaction =
  ID :: int
  EmojiName :: string
  User :: 'u
  Livestream :: "'u Livestream"
  CreatedAt :: int

section \<open>Storage\<close>

text \<open>
  The tables the two files read and write, each a list of rows in table order. A
  \<^verbatim>\<open>SELECT ... WHERE p\<close> is \<open>filter p\<close> on the table, \<^verbatim>\<open>GetContext\<close> takes the first
  row of that result and fails with \<^verbatim>\<open>sql.ErrNoRows\<close> when there is none. The reads of
  the fill functions are functions of the tables; only the statements of the reservation
  handler are given a way to fail for other reasons (\<open>fails\<close>, below).
\<close>

record DB =
  reservation_slots :: "ReservationSlotModel list"
  livestreams :: "LivestreamModel list"
  livestream_tags :: "LivestreamTagModel list"
  tags :: "TagModel list"
  users :: "UserModel list"

text \<open>
  Go \<^verbatim>\<open>error\<close> values that the fill functions return. \<open>Errorf\<close> is
  \<^verbatim>\<open>fmt.Errorf("<text>: %w", err)\<close>; the \<open>NotFound\<close> errors are the
  \<^verbatim>\<open>fmt.Errorf("... not found for ... %d", id)\<close> of the bulk functions;
  \<open>ErrEmptySlice\<close> is what \<^verbatim>\<open>sqlx.In\<close> returns for an empty slice argument.
\<close>

datatype error =
    ErrNoRows
  | ErrEmptySlice
  | OwnerNotFound int
  | TagNotFound int
  | UserNotFound int
  | LivestreamNotFound int
  | ErrOther string
  | Errorf string error

definition GetContext :: "'a list \<Rightarrow> error + 'a" where
  "GetContext rows = (case rows of [] \<Rightarrow> Inl ErrNoRows | r # _ \<Rightarrow> Inr r)"

text \<open>
  \<^verbatim>\<open>sqlx.In(query, ids)\<close> expands the slice into the placeholders of \<^verbatim>\<open>IN (?)\<close>. It
  returns the error "empty slice passed to 'in' query" when the slice has length 0,
  and the arguments unchanged (one per element, duplicates included) otherwise.
\<close>

definition sqlx_In :: "int list \<Rightarrow> error + int list" where
  "sqlx_In ids = (if ids = [] then Inl ErrEmptySlice else Inr ids)"

text \<open>
  Modelled from the spec: the id a row receives on insert (\<^verbatim>\<open>LastInsertId\<close>). The
  schema is written outside the two files; the storage gateway's
  \<^verbatim>\<open>Insert(row) -> generatedID\<close> of section 6 is taken to give a positive id above every
  id of the table.
\<close>

definition lastInsertId :: "int list \<Rightarrow> int" where
  "lastInsertId ids = fold max ids 0 + 1"

section \<open>fillLivestreamResponse\<close>

text \<open>
  \<^verbatim>\<open>fillUserResponse\<close> is defined outside the two files. It is the parameter
  \<open>fillUserResponse\<close> below: a function of the user row (no statement of the two files
  writes a table it could read besides the ones it is given rows of).
\<close>

fun getTags :: "DB \<Rightarrow> LivestreamTagModel list \<Rightarrow> error + Tag list" where
  "getTags db [] = Inr []"
| "getTags db (lt # rest) =
     (case GetContext (filter (\<lambda>t. TagModel.ID t = TagID lt) (tags db)) of
        Inl e \<Rightarrow> Inl e
      | Inr tagModel \<Rightarrow>
          (case getTags db rest of
             Inl e \<Rightarrow> Inl e
           | Inr ts \<Rightarrow> Inr (\<lparr>Tag.ID = TagModel.ID tagModel, Name = TagModel.Name tagModel\<rparr> # ts)))"

definition fillLivestreamResponse ::
  "(UserModel \<Rightarrow> error + 'u) \<Rightarrow> DB \<Rightarrow> LivestreamModel \<Rightarrow> error + 'u Livestream" where
  "fillLivestreamResponse fillUserResponse db livestreamModel =
     (case GetContext (filter (\<lambda>u. UserModel.ID u = LivestreamModel.UserID livestreamModel) (users db)) of
        Inl e \<Rightarrow> Inl e
      | Inr ownerModel \<Rightarrow>
          (case fillUserResponse ownerModel of
             Inl e \<Rightarrow> Inl e
           | Inr owner \<Rightarrow>
               (case getTags db (filter (\<lambda>lt. LivestreamTagModel.LivestreamID lt = LivestreamModel.ID livestreamModel)
                                   (livestream_tags db)) of
                  Inl e \<Rightarrow> Inl e
                | Inr tags' \<Rightarrow>
                    Inr \<lparr>Livestream.ID = LivestreamModel.ID livestreamModel,
                         Owner = owner,
                         Title = LivestreamModel.Title livestreamModel,
                         Description = LivestreamModel.Description livestreamModel,
                         PlaylistUrl = LivestreamModel.PlaylistUrl livestreamModel,
                         ThumbnailUrl = LivestreamModel.ThumbnailUrl livestreamModel,
                         Tags = tags',
                         StartAt = LivestreamModel.StartAt livestreamModel,
                         EndAt = LivestreamModel.EndAt livestreamModel\<rparr>)))"

section \<open>reserveLivestreamHandler\<close>

text \<open>
  The handler's responses: \<^verbatim>\<open>echo.NewHTTPError(code, message)\<close>, the message named by
  its constant text.
\<close>

datatype message =
    FailedToBeginTransaction
  | BadReservationTimeRange
  | FailedToGetReservationSlots
  | CannotReserve int int int int
  | FailedToUpdateReservationSlot
  | FailedToInsertLivestream
  | FailedToGetLastInsertedLivestreamID
  | FailedToInsertLivestreamTag
  | FailedToFillLivestream
  | FailedToCommit

datatype HTTPError = NewHTTPError (Code: nat) (Message: message)

definition StatusBadRequest :: nat where "StatusBadRequest = 400"
definition StatusInternalServerError :: nat where "StatusInternalServerError = 500"

text \<open>
  Every statement the handler sends to the storage can fail for reasons outside the
  data (connection loss, lock timeout). \<open>fails\<close> says which do; the statements of the
  two loops carry the iteration's index.
\<close>

datatype stmt =
    BeginTxx
  | SelectSlotsForUpdate
  | GetSlot nat
  | UpdateSlots
  | InsertLivestream
  | LastInsertId
  | InsertLivestreamTag nat
  | FillLivestream
  | Commit

text \<open>
  A \<^verbatim>\<open>time.Time\<close> without a monotonic clock reading holds its seconds since the year 1 in
  an \<^verbatim>\<open>int64\<close>. \<^verbatim>\<open>time.Unix(sec, 0)\<close> stores \<^verbatim>\<open>sec + unixToInternal\<close>, an \<^verbatim>\<open>int64\<close>
  addition that wraps around; \<^verbatim>\<open>Equal\<close>, \<^verbatim>\<open>After\<close> and \<^verbatim>\<open>Before\<close> compare the stored
  seconds (the nanoseconds are 0 on both sides).
\<close>

definition unixToInternal :: int where
  "unixToInternal = 62135596800"

definition wrapInt64 :: "int \<Rightarrow> int" where
  "wrapInt64 x = (x + 9223372036854775808) mod 18446744073709551616 - 9223372036854775808"

definition timeUnix :: "int \<Rightarrow> int" where
  "timeUnix sec = wrapInt64 (sec + unixToInternal)"

text \<open>The instants whose stored seconds are not wrapped.\<close>

definition representable :: "int \<Rightarrow> bool" where
  "representable sec \<longleftrightarrow>
     - 9223372036854775808 \<le> sec + unixToInternal \<and> sec + unixToInternal < 9223372036854775808"

text \<open>
  \<^verbatim>\<open>time.Date(2023, 11, 25, 1, 0, 0, 0, time.UTC)\<close> and the same instant of 2024, in
  Unix seconds (the value of \<^verbatim>\<open>termStartAt.Unix()\<close>); their stored seconds are
  \<open>timeUnix\<close> of these, which does not wrap. The check of the handler, for a term given
  by its Unix seconds:
\<close>

definition termStartAt :: int where "termStartAt = 1700874000"
definition termEndAt :: int where "termEndAt = 1732496400"

definition badTimeRange :: "int \<Rightarrow> int \<Rightarrow> int \<Rightarrow> int \<Rightarrow> bool" where
  "badTimeRange termStart termEnd reserveStartAt reserveEndAt \<longleftrightarrow>
     (timeUnix reserveStartAt = timeUnix termEnd \<or> timeUnix reserveStartAt > timeUnix termEnd) \<or>
     (timeUnix reserveEndAt = timeUnix termStart \<or> timeUnix reserveEndAt < timeUnix termStart)"

definition inWindow :: "ReserveLivestreamRequest \<Rightarrow> ReservationSlotModel \<Rightarrow> bool" where
  "inWindow req s \<longleftrightarrow>
     ReservationSlotModel.StartAt s \<ge> ReserveLivestreamRequest.StartAt req \<and>
     ReservationSlotModel.EndAt s \<le> ReserveLivestreamRequest.EndAt req"

text \<open>The re-read of one slot: \<^verbatim>\<open>SELECT slot ... WHERE start_at = ? AND end_at = ?\<close>.\<close>

definition getSlotCount :: "DB \<Rightarrow> ReservationSlotModel \<Rightarrow> error + int" where
  "getSlotCount db slot =
     (case GetContext (filter (\<lambda>s. ReservationSlotModel.StartAt s = ReservationSlotModel.StartAt slot \<and>
                                   ReservationSlotModel.EndAt s = ReservationSlotModel.EndAt slot)
                         (reservation_slots db)) of
        Inl e \<Rightarrow> Inl e
      | Inr r \<Rightarrow> Inr (Slot r))"

fun checkSlots ::
  "(stmt \<Rightarrow> bool) \<Rightarrow> DB \<Rightarrow> ReserveLivestreamRequest \<Rightarrow> nat \<Rightarrow> ReservationSlotModel list \<Rightarrow> HTTPError option" where
  "checkSlots fails db req i [] = None"
| "checkSlots fails db req i (slot # rest) =
     (if fails (GetSlot i) then Some (NewHTTPError StatusInternalServerError FailedToGetReservationSlots)
      else case getSlotCount db slot of
             Inl e \<Rightarrow> Some (NewHTTPError StatusInternalServerError FailedToGetReservationSlots)
           | Inr count \<Rightarrow>
               if count < 1
               then Some (NewHTTPError StatusBadRequest
                            (CannotReserve termStartAt termEndAt
                               (ReserveLivestreamRequest.StartAt req) (ReserveLivestreamRequest.EndAt req)))
               else checkSlots fails db req (Suc i) rest)"

text \<open>
  \<^verbatim>\<open>UPDATE reservation_slots SET slot = slot - 1 WHERE start_at >= ? AND end_at <= ?\<close>.
  The subtraction is the database's; the column is declared outside the two files and is
  taken to hold the result.
\<close>

definition updateSlots :: "ReserveLivestreamRequest \<Rightarrow> DB \<Rightarrow> DB" where
  "updateSlots req db =
     db\<lparr>reservation_slots :=
          map (\<lambda>s. if inWindow req s then s\<lparr>Slot := Slot s - 1\<rparr> else s) (reservation_slots db)\<rparr>"

fun insertTags :: "(stmt \<Rightarrow> bool) \<Rightarrow> int \<Rightarrow> nat \<Rightarrow> DB \<Rightarrow> int list \<Rightarrow> HTTPError option \<times> DB" where
  "insertTags fails livestreamID i db [] = (None, db)"
| "insertTags fails livestreamID i db (tagID # rest) =
     (if fails (InsertLivestreamTag i)
      then (Some (NewHTTPError StatusInternalServerError FailedToInsertLivestreamTag), db)
      else insertTags fails livestreamID (Suc i)
             (db\<lparr>livestream_tags := livestream_tags db @
                   [\<lparr>LivestreamTagModel.ID = lastInsertId (map LivestreamTagModel.ID (livestream_tags db)),
                     LivestreamID = livestreamID, TagID = tagID\<rparr>]\<rparr>)
             rest)"

text \<open>
  A transaction: the tables as stored, and the tables as the transaction sees them. The
  statements of the handler write to the view; \<^verbatim>\<open>tx.Commit()\<close>, when it succeeds, stores
  the view.
\<close>

record Tx =
  stored :: DB
  view :: DB

text \<open>
  The body of the handler between \<^verbatim>\<open>BeginTxx\<close> and its return: the response, and the
  transaction at that point. The session check and the decoding of the request body come
  before it; \<open>userID\<close> and \<open>req\<close> are their results.
\<close>

definition reserveTx ::
  "(stmt \<Rightarrow> bool) \<Rightarrow> (UserModel \<Rightarrow> error + 'u) \<Rightarrow> DB \<Rightarrow> int \<Rightarrow> ReserveLivestreamRequest
     \<Rightarrow> (HTTPError + 'u Livestream) \<times> Tx" where
  "reserveTx fails fillUserResponse db userID req =
     (if badTimeRange termStartAt termEndAt
           (ReserveLivestreamRequest.StartAt req) (ReserveLivestreamRequest.EndAt req)
      then (Inl (NewHTTPError StatusBadRequest BadReservationTimeRange), \<lparr>stored = db, view = db\<rparr>)
      else if fails SelectSlotsForUpdate
      then (Inl (NewHTTPError StatusInternalServerError FailedToGetReservationSlots),
            \<lparr>stored = db, view = db\<rparr>)
      else case checkSlots fails db req 0 (filter (inWindow req) (reservation_slots db)) of
        Some e \<Rightarrow> (Inl e, \<lparr>stored = db, view = db\<rparr>)
      | None \<Rightarrow>
          if fails UpdateSlots
          then (Inl (NewHTTPError StatusInternalServerError FailedToUpdateReservationSlot),
                \<lparr>stored = db, view = db\<rparr>)
          else let db1 = updateSlots req db in
          if fails InsertLivestream
          then (Inl (NewHTTPError StatusInternalServerError FailedToInsertLivestream),
                \<lparr>stored = db, view = db1\<rparr>)
          else let livestreamID = lastInsertId (map LivestreamModel.ID (livestreams db1));
                   livestreamModel =
                     \<lparr>LivestreamModel.ID = livestreamID,
                      UserID = userID,
                      Title = ReserveLivestreamRequest.Title req,
                      Description = ReserveLivestreamRequest.Description req,
                      PlaylistUrl = ReserveLivestreamRequest.PlaylistUrl req,
                      ThumbnailUrl = ReserveLivestreamRequest.ThumbnailUrl req,
                      StartAt = ReserveLivestreamRequest.StartAt req,
                      EndAt = ReserveLivestreamRequest.EndAt req\<rparr>;
                   db2 = db1\<lparr>livestreams := livestreams db1 @ [livestreamModel]\<rparr> in
          if fails LastInsertId
          then (Inl (NewHTTPError StatusInternalServerError FailedToGetLastInsertedLivestreamID),
                \<lparr>stored = db, view = db2\<rparr>)
          else case insertTags fails livestreamID 0 db2 (ReserveLivestreamRequest.Tags req) of
            (Some e, db3) \<Rightarrow> (Inl e, \<lparr>stored = db, view = db3\<rparr>)
          | (None, db3) \<Rightarrow>
              if fails FillLivestream
              then (Inl (NewHTTPError StatusInternalServerError FailedToFillLivestream),
                    \<lparr>stored = db, view = db3\<rparr>)
              else case fillLivestreamResponse fillUserResponse db3 livestreamModel of
                Inl e \<Rightarrow> (Inl (NewHTTPError StatusInternalServerError FailedToFillLivestream),
                          \<lparr>stored = db, view = db3\<rparr>)
              | Inr livestream \<Rightarrow>
                  if fails Commit
                  then (Inl (NewHTTPError StatusInternalServerError FailedToCommit),
                        \<lparr>stored = db, view = db3\<rparr>)
                  else (Inr livestream, \<lparr>stored = db3, view = db3\<rparr>))"

text \<open>
  The handler: the response and the stored tables after it returns. The deferred
  \<^verbatim>\<open>tx.Rollback()\<close> runs at every return: it discards the view of a transaction that was
  not committed and does nothing after a successful \<^verbatim>\<open>Commit\<close>, so what the handler
  leaves stored is what its transaction left stored.
\<close>

definition reserveLivestreamHandler ::
  "(stmt \<Rightarrow> bool) \<Rightarrow> (UserModel \<Rightarrow> error + 'u) \<Rightarrow> DB \<Rightarrow> int \<Rightarrow> ReserveLivestreamRequest
     \<Rightarrow> (HTTPError + 'u Livestream) \<times> DB" where
  "reserveLivestreamHandler fails fillUserResponse db userID req =
     (if fails BeginTxx
      then (Inl (NewHTTPError StatusInternalServerError FailedToBeginTransaction), db)
      else case reserveTx fails fillUserResponse db userID req of
             (response, tx) \<Rightarrow> (response, stored tx))"

section \<open>fillLivestreamResponseBulk\<close>

text \<open>
  The bulk functions return, beside their result, the \<^verbatim>\<open>SELECT ... IN (?)\<close> statements
  they sent through \<^verbatim>\<open>tx.SelectContext\<close>, in order, each with the argument list that
  \<^verbatim>\<open>sqlx.In\<close> bound to it. \<^verbatim>\<open>fillUserResponseBulk\<close> is defined outside the two files:
  it is the parameter \<open>fillUserResponseBulk\<close>, from the selected user rows to a map from
  user id to response, and what it sends itself is not recorded.
\<close>

datatype query =
    SelectUsersIn "int list"
  | SelectLivestreamTagsIn "int list"
  | SelectTagsIn "int list"
  | SelectLivestreamsIn "int list"

text \<open>\<^verbatim>\<open>livestreamTagMap[k] = append(livestreamTagMap[k], livestreamTag)\<close>, row by row.\<close>

definition appendTag ::
  "(int \<rightharpoonup> LivestreamTagModel list) \<Rightarrow> LivestreamTagModel \<Rightarrow> (int \<rightharpoonup> LivestreamTagModel list)" where
  "appendTag m livestreamTag =
     m(LivestreamTagModel.LivestreamID livestreamTag \<mapsto>
         (case m (LivestreamTagModel.LivestreamID livestreamTag) of None \<Rightarrow> [] | Some xs \<Rightarrow> xs) @ [livestreamTag])"

definition putTag :: "(int \<rightharpoonup> Tag) \<Rightarrow> TagModel \<Rightarrow> (int \<rightharpoonup> Tag)" where
  "putTag m tagModel =
     m(TagModel.ID tagModel \<mapsto> \<lparr>Tag.ID = TagModel.ID tagModel, Name = TagModel.Name tagModel\<rparr>)"

fun lookupTags :: "(int \<rightharpoonup> Tag) \<Rightarrow> LivestreamTagModel list \<Rightarrow> error + Tag list" where
  "lookupTags tagMap [] = Inr []"
| "lookupTags tagMap (livestreamTag # rest) =
     (case tagMap (TagID livestreamTag) of
        None \<Rightarrow> Inl (TagNotFound (TagID livestreamTag))
      | Some tag \<Rightarrow>
          (case lookupTags tagMap rest of
             Inl e \<Rightarrow> Inl e
           | Inr ts \<Rightarrow> Inr (tag # ts)))"

text \<open>Step 5 of the function: the loop that fills \<^verbatim>\<open>livestreamMap\<close>.\<close>

fun buildLivestreams ::
  "(int \<rightharpoonup> 'u) \<Rightarrow> (int \<rightharpoonup> LivestreamTagModel list) \<Rightarrow> (int \<rightharpoonup> Tag)
     \<Rightarrow> (int \<rightharpoonup> 'u Livestream) \<Rightarrow> LivestreamModel list \<Rightarrow> error + (int \<rightharpoonup> 'u Livestream)" where
  "buildLivestreams ownerMap livestreamTagMap tagMap livestreamMap [] = Inr livestreamMap"
| "buildLivestreams ownerMap livestreamTagMap tagMap livestreamMap (livestreamModel # rest) =
     (case ownerMap (LivestreamModel.UserID livestreamModel) of
        None \<Rightarrow> Inl (OwnerNotFound (LivestreamModel.UserID livestreamModel))
      | Some owner \<Rightarrow>
          let livestreamTags =
                (case livestreamTagMap (LivestreamModel.ID livestreamModel) of
                   None \<Rightarrow> []
                 | Some xs \<Rightarrow> xs)
          in case lookupTags tagMap livestreamTags of
               Inl e \<Rightarrow> Inl e
             | Inr tags' \<Rightarrow>
                 buildLivestreams ownerMap livestreamTagMap tagMap
                   (livestreamMap(LivestreamModel.ID livestreamModel \<mapsto>
                      \<lparr>Livestream.ID = LivestreamModel.ID livestreamModel,
                       Owner = owner,
                       Title = LivestreamModel.Title livestreamModel,
                       Description = LivestreamModel.Description livestreamModel,
                       PlaylistUrl = LivestreamModel.PlaylistUrl livestreamModel,
                       ThumbnailUrl = LivestreamModel.ThumbnailUrl livestreamModel,
                       Tags = tags',
                       StartAt = LivestreamModel.StartAt livestreamModel,
                       EndAt = LivestreamModel.EndAt livestreamModel\<rparr>))
                   rest)"

definition fillLivestreamResponseBulk ::
  "(UserModel list \<Rightarrow> error + (int \<rightharpoonup> 'u)) \<Rightarrow> DB \<Rightarrow> LivestreamModel list
     \<Rightarrow> query list \<times> (error + (int \<rightharpoonup> 'u Livestream))" where
  "fillLivestreamResponseBulk fillUserResponseBulk db livestreamModels =
     (if livestreamModels = [] then ([], Inr Map.empty)
      else
        let userIDs = map LivestreamModel.UserID livestreamModels;
            livestreamIDs = map LivestreamModel.ID livestreamModels
        in case sqlx_In userIDs of
          Inl err \<Rightarrow> ([], Inl (Errorf ''failed to build owner query'' err))
        | Inr args \<Rightarrow>
            let q1 = [SelectUsersIn args];
                ownerModels = filter (\<lambda>u. UserModel.ID u \<in> set args) (users db)
            in case fillUserResponseBulk ownerModels of
              Inl err \<Rightarrow> (q1, Inl (Errorf ''failed to process owner responses'' err))
            | Inr ownerMap \<Rightarrow>
                (case sqlx_In livestreamIDs of
                   Inl err \<Rightarrow> (q1, Inl (Errorf ''failed to build livestream tag query'' err))
                 | Inr args2 \<Rightarrow>
                     let q2 = q1 @ [SelectLivestreamTagsIn args2];
                         livestreamTagModels =
                           filter (\<lambda>lt. LivestreamTagModel.LivestreamID lt \<in> set args2) (livestream_tags db);
                         livestreamTagMap = foldl appendTag Map.empty livestreamTagModels;
                         tagIDs = map TagID livestreamTagModels
                     in case sqlx_In tagIDs of
                          Inl err \<Rightarrow> (q2, Inl (Errorf ''failed to build tag query'' err))
                        | Inr args3 \<Rightarrow>
                            let q3 = q2 @ [SelectTagsIn args3];
                                tagModels = filter (\<lambda>t. TagModel.ID t \<in> set args3) (tags db);
                                tagMap = foldl putTag Map.empty tagModels
                            in (q3, buildLivestreams ownerMap livestreamTagMap tagMap Map.empty
                                      livestreamModels)))"

section \<open>fillReactionResponseBulk\<close>

text \<open>Step 4 of the function: the loop that appends to \<^verbatim>\<open>reactions\<close>.\<close>

fun buildReactions ::
  "(int \<rightharpoonup> 'u) \<Rightarrow> (int \<rightharpoonup> 'u Livestream) \<Rightarrow> ReactionModel list \<Rightarrow> error + 'u Reaction list" where
  "buildReactions userMap livestreamMap [] = Inr []"
| "buildReactions userMap livestreamMap (reactionModel # rest) =
     (case userMap (ReactionModel.UserID reactionModel) of
        None \<Rightarrow> Inl (UserNotFound (ReactionModel.UserID reactionModel))
      | Some user \<Rightarrow>
          (case livestreamMap (ReactionModel.LivestreamID reactionModel) of
             None \<Rightarrow> Inl (LivestreamNotFound (ReactionModel.LivestreamID reactionModel))
           | Some livestream \<Rightarrow>
               (case buildReactions userMap livestreamMap rest of
                  Inl e \<Rightarrow> Inl e
                | Inr reactions \<Rightarrow>
                    Inr (\<lparr>Reaction.ID = ReactionModel.ID reactionModel,
                          EmojiName = ReactionModel.EmojiName reactionModel,
                          User = user,
                          Livestream = livestream,
                          CreatedAt = ReactionModel.CreatedAt reactionModel\<rparr> # reactions))))"

definition fillReactionResponseBulk ::
  "(UserModel list \<Rightarrow> error + (int \<rightharpoonup> 'u)) \<Rightarrow> DB \<Rightarrow> ReactionModel list
     \<Rightarrow> query list \<times> (error + 'u Reaction list)" where
  "fillReactionResponseBulk fillUserResponseBulk db reactionModels =
     (if reactionModels = [] then ([], Inr [])
      else
        let userIDs = map ReactionModel.UserID reactionModels;
            livestreamIDs = map ReactionModel.LivestreamID reactionModels
        in case sqlx_In userIDs of
          Inl err \<Rightarrow> ([], Inl (Errorf ''failed to build user query'' err))
        | Inr args \<Rightarrow>
            let q1 = [SelectUsersIn args];
                userModels = filter (\<lambda>u. UserModel.ID u \<in> set args) (users db)
            in case fillUserResponseBulk userModels of
              Inl err \<Rightarrow> (q1, Inl (Errorf ''failed to process user responses'' err))
            | Inr userMap \<Rightarrow>
                (case sqlx_In livestreamIDs of
                   Inl err \<Rightarrow> (q1, Inl (Errorf ''failed to build livestream query'' err))
                 | Inr args2 \<Rightarrow>
                     let q2 = q1 @ [SelectLivestreamsIn args2];
                         livestreamModels =
                           filter (\<lambda>l. LivestreamModel.ID l \<in> set args2) (livestreams db)
                     in case fillLivestreamResponseBulk fillUserResponseBulk db livestreamModels of
                          (qs, Inl err) \<Rightarrow>
                            (q2 @ qs, Inl (Errorf ''failed to process livestream responses'' err))
                        | (qs, Inr livestreamMap) \<Rightarrow>
                            (q2 @ qs, buildReactions userMap livestreamMap reactionModels)))"

section \<open>fillReactionResponse\<close>

definition fillReactionResponse ::
  "(UserModel \<Rightarrow> error + 'u) \<Rightarrow> DB \<Rightarrow> ReactionModel \<Rightarrow> error + 'u Reaction" where
  "fillReactionResponse fillUserResponse db reactionModel =
     (case GetContext (filter (\<lambda>u. UserModel.ID u = ReactionModel.UserID reactionModel) (users db)) of
        Inl e \<Rightarrow> Inl e
      | Inr userModel \<Rightarrow>
          (case fillUserResponse userModel of
             Inl e \<Rightarrow> Inl e
           | Inr user \<Rightarrow>
               (case GetContext (filter (\<lambda>l. LivestreamModel.ID l = ReactionModel.LivestreamID reactionModel)
                                   (livestreams db)) of
                  Inl e \<Rightarrow> Inl e
                | Inr livestreamModel \<Rightarrow>
                    (case fillLivestreamResponse fillUserResponse db livestreamModel of
                       Inl e \<Rightarrow> Inl e
                     | Inr livestream \<Rightarrow>
                         Inr \<lparr>Reaction.ID = ReactionModel.ID reactionModel,
                              EmojiName = ReactionModel.EmojiName reactionModel,
                              User = user,
                              Livestream = livestream,
                              CreatedAt = ReactionModel.CreatedAt reactionModel\<rparr>))))"

section \<open>Well-formed tables and example data\<close>

text \<open>
  A reservation slot is identified by its interval: the handler re-reads a slot with
  \<^verbatim>\<open>WHERE start_at = ? AND end_at = ?\<close> into a single \<^verbatim>\<open>int\<close>. A table is
  well-formed when no two rows have the same interval.
\<close>

definition slotIntervalsDistinct :: "DB \<Rightarrow> bool" where
  "slotIntervalsDistinct db \<longleftrightarrow>
     distinct (map (\<lambda>s. (ReservationSlotModel.StartAt s, ReservationSlotModel.EndAt s)) (reservation_slots db))"

text \<open>
  Storage behaviours: no statement fails; the first tag insert fails; the fill fails; the
  commit fails.
\<close>

definition noFaults :: "stmt \<Rightarrow> bool" where
  "noFaults s = False"

definition tagInsertFails :: "stmt \<Rightarrow> bool" where
  "tagInsertFails s = (s = InsertLivestreamTag 0)"

definition fillFails :: "stmt \<Rightarrow> bool" where
  "fillFails s = (s = FillLivestream)"

definition commitFails :: "stmt \<Rightarrow> bool" where
  "commitFails s = (s = Commit)"

text \<open>
  Modelled from the spec: \<^verbatim>\<open>fillUserResponse\<close>, which is defined outside the two files.
  For the examples the response of a user is its row (section 2: the entity fetchers map
  stored rows to domain entities).
\<close>

definition userFromRow :: "UserModel \<Rightarrow> error + UserModel" where
  "userFromRow u = Inr u"

text \<open>
  Two consecutive one-hour slots at the start of the term, with remaining capacities 1
  and 0; one tag; one user.
\<close>

definition db0 :: DB where
  "db0 = \<lparr>reservation_slots =
            [\<lparr>ReservationSlotModel.ID = 1, Slot = 1, StartAt = 1700874000, EndAt = 1700877600\<rparr>,
             \<lparr>ReservationSlotModel.ID = 2, Slot = 0, StartAt = 1700877600, EndAt = 1700881200\<rparr>],
          livestreams = [],
          livestream_tags = [],
          tags = [\<lparr>TagModel.ID = 1, Name = ''go''\<rparr>],
          users = [\<lparr>UserModel.ID = 1, Name = ''isucon''\<rparr>]\<rparr>"

text \<open>The same store with both rows on the same interval.\<close>

definition dbSameInterval :: DB where
  "dbSameInterval =
     db0\<lparr>reservation_slots :=
           [\<lparr>ReservationSlotModel.ID = 1, Slot = 1, StartAt = 1700874000, EndAt = 1700877600\<rparr>,
            \<lparr>ReservationSlotModel.ID = 2, Slot = 0, StartAt = 1700874000, EndAt = 1700877600\<rparr>]\<rparr>"

definition reserveRequest :: "int list \<Rightarrow> int \<Rightarrow> int \<Rightarrow> ReserveLivestreamRequest" where
  "reserveRequest ts s e =
     \<lparr>ReserveLivestreamRequest.Tags = ts, Title = ''title'', Description = ''description'',
      PlaylistUrl = ''playlist'', ThumbnailUrl = ''thumbnail'', StartAt = s, EndAt = e\<rparr>"

text \<open>
  Modelled from the spec: \<^verbatim>\<open>fillUserResponseBulk\<close>, which is defined outside the two
  files. For the examples it is the mapping from the id of each selected user row to the
  response of that row (section 4.2, step 4: an in-memory mapping from id to resolved
  entity).
\<close>

definition usersFromRows :: "UserModel list \<Rightarrow> error + (int \<rightharpoonup> UserModel)" where
  "usersFromRows us = Inr (map_of (map (\<lambda>u. (UserModel.ID u, u)) us))"

text \<open>Rows for the examples, and a store of three livestreams of which only the second has tags.\<close>

definition livestreamRow :: "int \<Rightarrow> int \<Rightarrow> LivestreamModel" where
  "livestreamRow i owner =
     \<lparr>LivestreamModel.ID = i, UserID = owner, Title = ''title'', Description = ''description'',
      PlaylistUrl = ''playlist'', ThumbnailUrl = ''thumbnail'',
      StartAt = 1700874000, EndAt = 1700877600\<rparr>"

definition reactionRow :: "int \<Rightarrow> int \<Rightarrow> int \<Rightarrow> ReactionModel" where
  "reactionRow i user livestream =
     \<lparr>ReactionModel.ID = i, EmojiName = ''tada'', UserID = user, LivestreamID = livestream,
      CreatedAt = 1700874100 + i\<rparr>"

definition db1 :: DB where
  "db1 = \<lparr>reservation_slots = [],
          livestreams = [livestreamRow 1 1, livestreamRow 2 1, livestreamRow 3 2],
          livestream_tags =
            [\<lparr>LivestreamTagModel.ID = 1, LivestreamID = 2, TagID = 2\<rparr>,
             \<lparr>LivestreamTagModel.ID = 2, LivestreamID = 2, TagID = 1\<rparr>],
          tags = [\<lparr>TagModel.ID = 1, Name = ''go''\<rparr>, \<lparr>TagModel.ID = 2, Name = ''rust''\<rparr>],
          users = [\<lparr>UserModel.ID = 1, Name = ''isucon''\<rparr>, \<lparr>UserModel.ID = 2, Name = ''kamome''\<rparr>]\<rparr>"

text \<open>
  The statements a complete run of each bulk function sends: one per table, each with one
  key per input row.
\<close>

definition livestreamQueries :: "DB \<Rightarrow> LivestreamModel list \<Rightarrow> query list" where
  "livestreamQueries db livestreamModels =
     [SelectUsersIn (map LivestreamModel.UserID livestreamModels),
      SelectLivestreamTagsIn (map LivestreamModel.ID livestreamModels),
      SelectTagsIn (map TagID (filter (\<lambda>lt. LivestreamTagModel.LivestreamID lt \<in>
                                          set (map LivestreamModel.ID livestreamModels))
                                 (livestream_tags db)))]"

definition reactionQueries :: "DB \<Rightarrow> ReactionModel list \<Rightarrow> query list" where
  "reactionQueries db reactionModels =
     [SelectUsersIn (map ReactionModel.UserID reactionModels),
      SelectLivestreamsIn (map ReactionModel.LivestreamID reactionModels)] @
     livestreamQueries db
       (filter (\<lambda>l. LivestreamModel.ID l \<in> set (map ReactionModel.LivestreamID reactionModels))
          (livestreams db))"

section \<open>Evaluation\<close>

text \<open>The defining equations that evaluate the examples.\<close>

lemmas ex_defs = noFaults_def tagInsertFails_def fillFails_def commitFails_def userFromRow_def
  dbSameInterval_def db0_def reserveRequest_def
lemmas reserve_defs = reserveLivestreamHandler_def reserveTx_def badTimeRange_def termStartAt_def termEndAt_def
  timeUnix_def wrapInt64_def unixToInternal_def
  inWindow_def getSlotCount_def GetContext_def updateSlots_def lastInsertId_def fillLivestreamResponse_def
  StatusBadRequest_def StatusInternalServerError_def Let_def

lemmas bulk_ex_defs = usersFromRows_def livestreamRow_def reactionRow_def db1_def userFromRow_def
lemmas bulk_defs = fillLivestreamResponseBulk_def fillReactionResponseBulk_def sqlx_In_def appendTag_def
  putTag_def Let_def fillLivestreamResponse_def GetContext_def

section \<open>Properties of reserveLivestreamHandler\<close>

lemma filter_key_distinct:
  "distinct (map f xs) \<Longrightarrow> x \<in> set xs \<Longrightarrow> filter (\<lambda>y. f y = f x) xs = [x]"
proof (induction xs)
  case Nil
  then show ?case by simp
next
  case (Cons a xs)
  show ?case
  proof (cases "a = x")
    case True
    with Cons.prems have "f x \<notin> f ` set xs" by simp
    then have "\<forall>y\<in>set xs. f y \<noteq> f x" by (metis image_eqI)
    then have "filter (\<lambda>y. f y = f x) xs = []" by (simp add: filter_empty_conv)
    with True show ?thesis by simp
  next
    case False
    with Cons.prems have "x \<in> set xs" "f a \<noteq> f x" by auto
    with Cons show ?thesis by simp
  qed
qed

lemma getSlotCount_distinct:
  assumes "slotIntervalsDistinct db" "s \<in> set (reservation_slots db)"
  shows "getSlotCount db s = Inr (Slot s)"
proof -
  let ?f = "\<lambda>s. (ReservationSlotModel.StartAt s, ReservationSlotModel.EndAt s)"
  have "filter (\<lambda>y. ?f y = ?f s) (reservation_slots db) = [s]"
    using assms unfolding slotIntervalsDistinct_def by (intro filter_key_distinct)
  then show ?thesis by (simp add: getSlotCount_def GetContext_def)
qed

lemma checkSlots_None:
  "checkSlots fails db req i slots = None \<Longrightarrow>
     \<forall>s\<in>set slots. \<exists>c. getSlotCount db s = Inr c \<and> 1 \<le> c"
  by (induction slots arbitrary: i) (auto split: if_splits sum.splits)

lemma checkSlots_Message:
  "checkSlots fails db req i slots = Some e \<Longrightarrow>
     e = NewHTTPError StatusInternalServerError FailedToGetReservationSlots \<or>
     e = NewHTTPError StatusBadRequest
           (CannotReserve termStartAt termEndAt
              (ReserveLivestreamRequest.StartAt req) (ReserveLivestreamRequest.EndAt req))"
  by (induction slots arbitrary: i) (auto split: if_splits sum.splits)

lemma insertTags_Some:
  "insertTags fails lid i db ts = (Some e, db') \<Longrightarrow>
     e = NewHTTPError StatusInternalServerError FailedToInsertLivestreamTag"
  by (induction ts arbitrary: i db) (auto split: if_splits)

lemma insertTags_fault:
  "j < length ts \<Longrightarrow> fails (InsertLivestreamTag (i + j)) \<Longrightarrow>
     \<exists>e db'. insertTags fails lid i db ts = (Some e, db')"
proof (induction ts arbitrary: i j db)
  case Nil
  then show ?case by simp
next
  case (Cons t ts)
  show ?case
  proof (cases j)
    case 0
    with Cons.prems show ?thesis by simp
  next
    case (Suc k)
    with Cons.prems have "k < length ts" "fails (InsertLivestreamTag (Suc i + k))" by simp_all
    from Cons.IH[OF this] show ?thesis by auto
  qed
qed

lemma insertTags_other_tables:
  "insertTags fails lid i db ts = (r, db') \<Longrightarrow>
     reservation_slots db' = reservation_slots db \<and> livestreams db' = livestreams db \<and>
     tags db' = tags db \<and> users db' = users db"
  by (induction ts arbitrary: i db) (auto split: if_splits)

lemma insertTags_None_rows:
  "insertTags fails lid i db ts = (None, db') \<Longrightarrow>
     map TagID (filter (\<lambda>lt. LivestreamTagModel.LivestreamID lt = lid) (livestream_tags db')) =
     map TagID (filter (\<lambda>lt. LivestreamTagModel.LivestreamID lt = lid) (livestream_tags db)) @ ts"
  by (induction ts arbitrary: i db) (auto split: if_splits)

lemma getTags_missing:
  "lt \<in> set lts \<Longrightarrow> TagID lt \<notin> TagModel.ID ` set (tags db) \<Longrightarrow> \<exists>e. getTags db lts = Inl e"
proof (induction lts)
  case Nil
  then show ?case by simp
next
  case (Cons a lts)
  show ?case
  proof (cases "a = lt")
    case True
    have "\<forall>t\<in>set (tags db). TagModel.ID t \<noteq> TagID lt"
      using Cons.prems(2) by (metis image_eqI)
    then have "filter (\<lambda>t. TagModel.ID t = TagID lt) (tags db) = []"
      by (simp add: filter_empty_conv)
    with True show ?thesis by (simp add: GetContext_def)
  next
    case False
    with Cons obtain e where "getTags db lts = Inl e" by auto
    then show ?thesis by (simp split: sum.splits)
  qed
qed

lemma checkSlots_None_faults:
  "checkSlots fails db req i slots = None \<Longrightarrow> j < length slots \<Longrightarrow> \<not> fails (GetSlot (i + j))"
proof (induction slots arbitrary: i j)
  case Nil
  then show ?case by simp
next
  case (Cons slot rest)
  from Cons.prems(1) have nf: "\<not> fails (GetSlot i)" and r: "checkSlots fails db req (Suc i) rest = None"
    by (auto split: if_splits sum.splits)
  show ?case
  proof (cases j)
    case 0
    with nf show ?thesis by simp
  next
    case (Suc k)
    with Cons.prems(2) have "k < length rest" by simp
    from Cons.IH[OF r this] Suc show ?thesis by simp
  qed
qed

text \<open>What a successful run of the transaction has gone through.\<close>

lemma reserveTx_success:
  assumes "fst (reserveTx fails fu db userID req) = Inr livestream"
  shows "\<not> badTimeRange termStartAt termEndAt
            (ReserveLivestreamRequest.StartAt req) (ReserveLivestreamRequest.EndAt req)"
    and "\<not> fails SelectSlotsForUpdate"
    and "checkSlots fails db req 0 (filter (inWindow req) (reservation_slots db)) = None"
    and "\<not> fails UpdateSlots" and "\<not> fails InsertLivestream" and "\<not> fails LastInsertId"
    and "\<forall>i<length (ReserveLivestreamRequest.Tags req). \<not> fails (InsertLivestreamTag i)"
    and "\<not> fails FillLivestream" and "\<not> fails Commit"
    and "stored (snd (reserveTx fails fu db userID req)) = view (snd (reserveTx fails fu db userID req))"
proof -
  let ?db1 = "updateSlots req db"
  let ?lid = "lastInsertId (map LivestreamModel.ID (livestreams ?db1))"
  let ?lm = "\<lparr>LivestreamModel.ID = ?lid,
              UserID = userID,
              Title = ReserveLivestreamRequest.Title req,
              Description = ReserveLivestreamRequest.Description req,
              PlaylistUrl = ReserveLivestreamRequest.PlaylistUrl req,
              ThumbnailUrl = ReserveLivestreamRequest.ThumbnailUrl req,
              StartAt = ReserveLivestreamRequest.StartAt req,
              EndAt = ReserveLivestreamRequest.EndAt req\<rparr>"
  let ?db2 = "?db1\<lparr>livestreams := livestreams ?db1 @ [?lm]\<rparr>"
  obtain r db3 where it: "insertTags fails ?lid 0 ?db2 (ReserveLivestreamRequest.Tags req) = (r, db3)"
    by (cases "insertTags fails ?lid 0 ?db2 (ReserveLivestreamRequest.Tags req)") blast
  from assms show b: "\<not> badTimeRange termStartAt termEndAt
            (ReserveLivestreamRequest.StartAt req) (ReserveLivestreamRequest.EndAt req)"
    by (auto simp: reserveTx_def)
  from assms b show s: "\<not> fails SelectSlotsForUpdate"
    by (auto simp: reserveTx_def)
  from assms b s show c: "checkSlots fails db req 0 (filter (inWindow req) (reservation_slots db)) = None"
    by (auto simp: reserveTx_def split: option.splits)
  from assms b s c show u: "\<not> fails UpdateSlots"
    by (auto simp: reserveTx_def)
  from assms b s c u show i: "\<not> fails InsertLivestream"
    by (auto simp: reserveTx_def Let_def)
  from assms b s c u i show l: "\<not> fails LastInsertId"
    by (auto simp: reserveTx_def Let_def)
  from assms b s c u i l it have rn: "r = None"
    by (cases r) (auto simp: reserveTx_def Let_def)
  show "\<forall>i<length (ReserveLivestreamRequest.Tags req). \<not> fails (InsertLivestreamTag i)"
  proof (intro allI impI notI)
    fix k assume "k < length (ReserveLivestreamRequest.Tags req)" "fails (InsertLivestreamTag k)"
    from insertTags_fault[of k "ReserveLivestreamRequest.Tags req" fails 0 ?lid ?db2] this
    obtain e db' where "insertTags fails ?lid 0 ?db2 (ReserveLivestreamRequest.Tags req) = (Some e, db')"
      by auto
    with it rn show False by simp
  qed
  from assms b s c u i l it rn show f: "\<not> fails FillLivestream"
    by (auto simp: reserveTx_def Let_def)
  from assms b s c u i l it rn f show m: "\<not> fails Commit"
    by (auto simp: reserveTx_def Let_def split: sum.splits if_splits)
  from assms b s c u i l it rn f m
  show "stored (snd (reserveTx fails fu db userID req)) = view (snd (reserveTx fails fu db userID req))"
    by (auto simp: reserveTx_def Let_def split: sum.splits)
qed

text \<open>Every error return of the transaction comes before a successful commit.\<close>

lemma reserveTx_error_stored:
  "fst (reserveTx fails fu db userID req) = Inl e \<Longrightarrow>
   stored (snd (reserveTx fails fu db userID req)) = db"
  by (auto simp: reserveTx_def Let_def split: if_splits option.splits prod.splits sum.splits)

lemma handler_begun:
  "\<not> fails BeginTxx \<Longrightarrow>
   reserveLivestreamHandler fails fu db userID req =
     (fst (reserveTx fails fu db userID req), stored (snd (reserveTx fails fu db userID req)))"
  by (simp add: reserveLivestreamHandler_def split: prod.splits)

lemma handler_error_unchanged:
  "fst (reserveLivestreamHandler fails fu db userID req) = Inl e \<Longrightarrow>
   snd (reserveLivestreamHandler fails fu db userID req) = db"
proof (cases "fails BeginTxx")
  case True
  then show ?thesis by (simp add: reserveLivestreamHandler_def)
next
  case False
  assume "fst (reserveLivestreamHandler fails fu db userID req) = Inl e"
  with False have "fst (reserveTx fails fu db userID req) = Inl e"
    by (simp add: handler_begun)
  from reserveTx_error_stored[OF this] False show ?thesis
    by (simp add: handler_begun)
qed

lemma reserveTx_slots:
  "reservation_slots (view (snd (reserveTx fails fu db userID req))) = reservation_slots db \<or>
   (checkSlots fails db req 0 (filter (inWindow req) (reservation_slots db)) = None \<and>
    reservation_slots (view (snd (reserveTx fails fu db userID req))) =
      reservation_slots (updateSlots req db))"
  by (auto simp: reserveTx_def Let_def dest!: insertTags_other_tables split: option.splits prod.splits sum.splits)

lemma handler_stored_cases:
  "snd (reserveLivestreamHandler fails fu db userID req) = db \<or>
   snd (reserveLivestreamHandler fails fu db userID req) = view (snd (reserveTx fails fu db userID req))"
proof (cases "fails BeginTxx")
  case True
  then show ?thesis by (simp add: reserveLivestreamHandler_def)
next
  case False
  show ?thesis
  proof (cases "fst (reserveTx fails fu db userID req)")
    case (Inl e)
    from reserveTx_error_stored[OF this] False show ?thesis
      by (simp add: handler_begun)
  next
    case (Inr l)
    from reserveTx_success(10)[OF this] False show ?thesis
      by (simp add: handler_begun)
  qed
qed

text \<open>
  C1, as stated, fails. On a table whose two rows lie on the same interval, with
  capacities 1 and 0, a request for that interval re-reads the capacity 1 for both rows,
  succeeds, and leaves the capacities 0 and -1.
\<close>

theorem reserve_same_interval_goes_negative:
  "map Slot (reservation_slots dbSameInterval) = [1, 0] \<and>
   \<not> isl (fst (reserveLivestreamHandler noFaults userFromRow dbSameInterval 1
            (reserveRequest [1] 1700874000 1700877600))) \<and>
   map Slot (reservation_slots (snd (reserveLivestreamHandler noFaults userFromRow dbSameInterval 1
            (reserveRequest [1] 1700874000 1700877600)))) = [0, - 1]"
  by (simp add: ex_defs reserve_defs)

text \<open>
  C1, as amended. From a table in which no two slots have the same interval and every
  slot has remaining capacity at least 0, the handler leaves every slot at capacity at
  least 0, whether it succeeds or fails, and so does the view of its transaction at
  every return. The transaction changes the slot table only if the re-read of every slot
  inside the requested window gave a capacity of at least 1.
\<close>

theorem reserve_keeps_capacity_nonnegative:
  assumes "\<forall>s\<in>set (reservation_slots db). 0 \<le> Slot s" and "slotIntervalsDistinct db"
  shows "(\<forall>s\<in>set (reservation_slots (snd (reserveLivestreamHandler fails fu db userID req))). 0 \<le> Slot s) \<and>
         (\<forall>s\<in>set (reservation_slots (view (snd (reserveTx fails fu db userID req)))). 0 \<le> Slot s) \<and>
         (reservation_slots (view (snd (reserveTx fails fu db userID req))) \<noteq> reservation_slots db \<longrightarrow>
            (\<forall>s\<in>set (reservation_slots db). inWindow req s \<longrightarrow> (\<exists>c. getSlotCount db s = Inr c \<and> 1 \<le> c)))"
proof -
  let ?tx = "reserveTx fails fu db userID req"
  let ?chk = "checkSlots fails db req 0 (filter (inWindow req) (reservation_slots db))"
  have upd: "\<forall>s\<in>set (reservation_slots (updateSlots req db)). 0 \<le> Slot s" if "?chk = None"
  proof
    fix s assume "s \<in> set (reservation_slots (updateSlots req db))"
    then obtain s0 where s0: "s0 \<in> set (reservation_slots db)"
      and s: "s = (if inWindow req s0 then s0\<lparr>Slot := Slot s0 - 1\<rparr> else s0)"
      by (auto simp: updateSlots_def)
    show "0 \<le> Slot s"
    proof (cases "inWindow req s0")
      case True
      with s0 have "s0 \<in> set (filter (inWindow req) (reservation_slots db))" by simp
      with checkSlots_None[OF that] obtain c where "getSlotCount db s0 = Inr c" "1 \<le> c" by blast
      with getSlotCount_distinct[OF assms(2) s0] have "1 \<le> Slot s0" by simp
      with s True show ?thesis by simp
    next
      case False
      with s s0 assms(1) show ?thesis by simp
    qed
  qed
  have tx: "\<forall>s\<in>set (reservation_slots (view (snd ?tx))). 0 \<le> Slot s"
    using reserveTx_slots[of fails fu db userID req] assms(1) upd by auto
  have only: "reservation_slots (view (snd ?tx)) \<noteq> reservation_slots db \<longrightarrow>
            (\<forall>s\<in>set (reservation_slots db). inWindow req s \<longrightarrow> (\<exists>c. getSlotCount db s = Inr c \<and> 1 \<le> c))"
    using reserveTx_slots[of fails fu db userID req] by (auto dest!: checkSlots_None)
  from handler_stored_cases[of fails fu db userID req] tx assms(1) only show ?thesis by auto
qed

theorem reserve_keeps_capacity_nonnegative_witness:
  "map Slot (reservation_slots db0) = [1, 0] \<and> slotIntervalsDistinct db0 \<and>
   map Slot (reservation_slots (snd (reserveLivestreamHandler noFaults userFromRow db0 1
      (reserveRequest [1] 1700874000 1700877600)))) = [0, 0] \<and>
   list_all (\<lambda>s. 0 \<le> Slot s) (reservation_slots (snd (reserveLivestreamHandler noFaults userFromRow db0 1
      (reserveRequest [1] 1700874000 1700877600))))"
proof -
  have h1: "\<forall>s\<in>set (reservation_slots db0). 0 \<le> Slot s" by (simp add: db0_def)
  have h2: "slotIntervalsDistinct db0" by (simp add: db0_def slotIntervalsDistinct_def)
  have h3: "map Slot (reservation_slots (snd (reserveLivestreamHandler noFaults userFromRow db0 1
      (reserveRequest [1] 1700874000 1700877600)))) = [0, 0]"
    by (simp add: ex_defs reserve_defs)
  from reserve_keeps_capacity_nonnegative[OF h1 h2, of noFaults userFromRow 1 "reserveRequest [1] 1700874000 1700877600"]
  have "list_all (\<lambda>s. 0 \<le> Slot s) (reservation_slots (snd (reserveLivestreamHandler noFaults userFromRow db0 1
      (reserveRequest [1] 1700874000 1700877600))))"
    by (simp add: list_all_iff)
  with h2 h3 show ?thesis by (simp add: db0_def)
qed

lemma handler_success:
  assumes "fst (reserveLivestreamHandler fails fu db userID req) = Inr livestream"
  shows "\<not> fails BeginTxx" and "fst (reserveTx fails fu db userID req) = Inr livestream"
proof -
  from assms show nb: "\<not> fails BeginTxx"
    by (auto simp: reserveLivestreamHandler_def)
  with assms show "fst (reserveTx fails fu db userID req) = Inr livestream"
    by (simp add: handler_begun)
qed

lemma handler_not_success:
  "(\<And>livestream. fst (reserveLivestreamHandler fails fu db userID req) \<noteq> Inr livestream) \<Longrightarrow>
   isl (fst (reserveLivestreamHandler fails fu db userID req))"
  by (cases "fst (reserveLivestreamHandler fails fu db userID req)") auto

lemma handler_fault_error:
  assumes "fails BeginTxx \<or> fails SelectSlotsForUpdate \<or>
           (\<exists>i<length (filter (inWindow req) (reservation_slots db)). fails (GetSlot i)) \<or>
           fails UpdateSlots \<or> fails InsertLivestream \<or> fails LastInsertId \<or>
           (\<exists>i<length (ReserveLivestreamRequest.Tags req). fails (InsertLivestreamTag i)) \<or>
           fails FillLivestream \<or> fails Commit"
  shows "isl (fst (reserveLivestreamHandler fails fu db userID req))"
proof (rule handler_not_success, rule notI)
  fix livestream
  assume ok: "fst (reserveLivestreamHandler fails fu db userID req) = Inr livestream"
  note tx = handler_success(2)[OF ok]
  note s = reserveTx_success[OF tx]
  have "\<forall>i<length (filter (inWindow req) (reservation_slots db)). \<not> fails (GetSlot i)"
    using checkSlots_None_faults[OF s(3)] by simp
  with assms handler_success(1)[OF ok] s(2,4,5,6,7,8,9) show False by blast
qed

lemma handler_exhausted_error:
  assumes "s \<in> set (reservation_slots db)" "inWindow req s" "getSlotCount db s = Inr c" "c < 1"
  shows "isl (fst (reserveLivestreamHandler fails fu db userID req))"
    and "view (snd (reserveTx fails fu db userID req)) = db"
proof -
  let ?chk = "checkSlots fails db req 0 (filter (inWindow req) (reservation_slots db))"
  have ne: "?chk \<noteq> None"
  proof
    assume n: "?chk = None"
    from assms(1,2) have "s \<in> set (filter (inWindow req) (reservation_slots db))" by simp
    with checkSlots_None[OF n] assms(3,4) show False by auto
  qed
  show "isl (fst (reserveLivestreamHandler fails fu db userID req))"
  proof (rule handler_not_success, rule notI)
    fix livestream
    assume ok: "fst (reserveLivestreamHandler fails fu db userID req) = Inr livestream"
    from reserveTx_success(3)[OF handler_success(2)[OF ok]] ne show False by simp
  qed
  from ne show "view (snd (reserveTx fails fu db userID req)) = db"
    by (auto simp: reserveTx_def)
qed

text \<open>
  C2, as stated, fails. On the table whose two rows lie on the same interval, the second
  row is inside the requested window and has capacity 0, yet the request succeeds and
  the stored tables change.
\<close>

theorem reserve_same_interval_succeeds:
  "inWindow (reserveRequest [1] 1700874000 1700877600) (reservation_slots dbSameInterval ! 1) \<and>
   Slot (reservation_slots dbSameInterval ! 1) < 1 \<and>
   \<not> isl (fst (reserveLivestreamHandler noFaults userFromRow dbSameInterval 1
            (reserveRequest [1] 1700874000 1700877600))) \<and>
   snd (reserveLivestreamHandler noFaults userFromRow dbSameInterval 1
          (reserveRequest [1] 1700874000 1700877600)) \<noteq> dbSameInterval"
  by (simp add: ex_defs reserve_defs)

text \<open>
  C2, as amended. The handler is all-or-nothing. Whenever it answers with an error, the
  stored tables are exactly those it started from. It answers with an error whenever a
  statement it sends fails: the begin, the locking select, the re-read of a slot of the
  window, the update, the insert of the livestream, the retrieval of its id, the insert
  of a tag, the fill, or the commit. It answers with an error, and its transaction has
  written nothing, whenever the re-read of a slot inside the requested window gives a
  capacity below 1; where no two slots have the same interval, that is whenever a slot
  inside the window has capacity below 1. The witness is the window over two slots of
  capacities 1 and 0, which is refused with the first slot left at capacity 1; a tag
  insert that fails after the decrement; and a commit that fails after all writes.
\<close>

theorem reserve_all_or_nothing:
  "(isl (fst (reserveLivestreamHandler fails fu db userID req)) \<longrightarrow>
      snd (reserveLivestreamHandler fails fu db userID req) = db) \<and>
   (fails BeginTxx \<or> fails SelectSlotsForUpdate \<or>
    (\<exists>i<length (filter (inWindow req) (reservation_slots db)). fails (GetSlot i)) \<or>
    fails UpdateSlots \<or> fails InsertLivestream \<or> fails LastInsertId \<or>
    (\<exists>i<length (ReserveLivestreamRequest.Tags req). fails (InsertLivestreamTag i)) \<or>
    fails FillLivestream \<or> fails Commit \<longrightarrow>
      isl (fst (reserveLivestreamHandler fails fu db userID req))) \<and>
   ((\<exists>s\<in>set (reservation_slots db). inWindow req s \<and> (\<exists>c. getSlotCount db s = Inr c \<and> c < 1)) \<longrightarrow>
      isl (fst (reserveLivestreamHandler fails fu db userID req)) \<and>
      view (snd (reserveTx fails fu db userID req)) = db) \<and>
   (slotIntervalsDistinct db \<and> (\<exists>s\<in>set (reservation_slots db). inWindow req s \<and> Slot s < 1) \<longrightarrow>
      isl (fst (reserveLivestreamHandler fails fu db userID req)) \<and>
      view (snd (reserveTx fails fu db userID req)) = db)"
proof (intro conjI impI)
  assume "isl (fst (reserveLivestreamHandler fails fu db userID req))"
  then obtain e where "fst (reserveLivestreamHandler fails fu db userID req) = Inl e"
    by (auto simp: isl_def)
  then show "snd (reserveLivestreamHandler fails fu db userID req) = db"
    by (rule handler_error_unchanged)
next
  assume "fails BeginTxx \<or> fails SelectSlotsForUpdate \<or>
    (\<exists>i<length (filter (inWindow req) (reservation_slots db)). fails (GetSlot i)) \<or>
    fails UpdateSlots \<or> fails InsertLivestream \<or> fails LastInsertId \<or>
    (\<exists>i<length (ReserveLivestreamRequest.Tags req). fails (InsertLivestreamTag i)) \<or>
    fails FillLivestream \<or> fails Commit"
  then show "isl (fst (reserveLivestreamHandler fails fu db userID req))"
    by (rule handler_fault_error)
next
  assume "\<exists>s\<in>set (reservation_slots db). inWindow req s \<and> (\<exists>c. getSlotCount db s = Inr c \<and> c < 1)"
  then obtain s c where
    s: "s \<in> set (reservation_slots db)" "inWindow req s" "getSlotCount db s = Inr c" "c < 1" by blast
  from handler_exhausted_error[OF s]
  show "isl (fst (reserveLivestreamHandler fails fu db userID req))"
    and "view (snd (reserveTx fails fu db userID req)) = db" .
next
  assume a: "slotIntervalsDistinct db \<and> (\<exists>s\<in>set (reservation_slots db). inWindow req s \<and> Slot s < 1)"
  then obtain s where s: "s \<in> set (reservation_slots db)" "inWindow req s" "Slot s < 1" by blast
  from a s(1) have g: "getSlotCount db s = Inr (Slot s)" by (simp add: getSlotCount_distinct)
  from handler_exhausted_error[OF s(1,2) g s(3)]
  show "isl (fst (reserveLivestreamHandler fails fu db userID req))"
    and "view (snd (reserveTx fails fu db userID req)) = db" .
qed

theorem reserve_all_or_nothing_witness:
  "map Slot (reservation_slots db0) = [1, 0] \<and>
   reserveLivestreamHandler noFaults userFromRow db0 1 (reserveRequest [1] 1700874000 1700881200) =
     (Inl (NewHTTPError StatusBadRequest (CannotReserve termStartAt termEndAt 1700874000 1700881200)), db0) \<and>
   view (snd (reserveTx noFaults userFromRow db0 1 (reserveRequest [1] 1700874000 1700881200))) = db0 \<and>
   map Slot (reservation_slots (view (snd (reserveTx tagInsertFails userFromRow db0 1
      (reserveRequest [1] 1700874000 1700877600))))) = [0, 0] \<and>
   reserveLivestreamHandler tagInsertFails userFromRow db0 1 (reserveRequest [1] 1700874000 1700877600) =
     (Inl (NewHTTPError StatusInternalServerError FailedToInsertLivestreamTag), db0) \<and>
   map TagID (livestream_tags (view (snd (reserveTx commitFails userFromRow db0 1
      (reserveRequest [1] 1700874000 1700877600))))) = [1] \<and>
   reserveLivestreamHandler commitFails userFromRow db0 1 (reserveRequest [1] 1700874000 1700877600) =
     (Inl (NewHTTPError StatusInternalServerError FailedToCommit), db0)"
proof -
  let ?both = "reserveRequest [1] 1700874000 1700881200"
  let ?first = "reserveRequest [1] 1700874000 1700877600"
  have d: "slotIntervalsDistinct db0 \<and> (\<exists>s\<in>set (reservation_slots db0). inWindow ?both s \<and> Slot s < 1)"
    by (simp add: db0_def slotIntervalsDistinct_def inWindow_def reserveRequest_def)
  have t: "\<exists>i<length (ReserveLivestreamRequest.Tags ?first). tagInsertFails (InsertLivestreamTag i)"
    by (simp add: tagInsertFails_def reserveRequest_def)
  have c: "commitFails Commit" by (simp add: commitFails_def)
  have f1: "fst (reserveLivestreamHandler noFaults userFromRow db0 1 ?both) =
     Inl (NewHTTPError StatusBadRequest (CannotReserve termStartAt termEndAt 1700874000 1700881200))"
    by (simp add: ex_defs reserve_defs)
  have f2: "fst (reserveLivestreamHandler tagInsertFails userFromRow db0 1 ?first) =
     Inl (NewHTTPError StatusInternalServerError FailedToInsertLivestreamTag)"
    by (simp add: ex_defs reserve_defs)
  have f3: "fst (reserveLivestreamHandler commitFails userFromRow db0 1 ?first) =
     Inl (NewHTTPError StatusInternalServerError FailedToCommit)"
    by (simp add: ex_defs reserve_defs)
  have w2: "map Slot (reservation_slots (view (snd (reserveTx tagInsertFails userFromRow db0 1 ?first)))) = [0, 0]"
    by (simp add: ex_defs reserve_defs)
  have w3: "map TagID (livestream_tags (view (snd (reserveTx commitFails userFromRow db0 1 ?first)))) = [1]"
    by (simp add: ex_defs reserve_defs)
  from reserve_all_or_nothing[of noFaults userFromRow db0 1 ?both] d
  have a: "snd (reserveLivestreamHandler noFaults userFromRow db0 1 ?both) = db0"
     "view (snd (reserveTx noFaults userFromRow db0 1 ?both)) = db0" by blast+
  from reserve_all_or_nothing[of tagInsertFails userFromRow db0 1 ?first] t
  have b: "snd (reserveLivestreamHandler tagInsertFails userFromRow db0 1 ?first) = db0" by blast
  from reserve_all_or_nothing[of commitFails userFromRow db0 1 ?first] c
  have k: "snd (reserveLivestreamHandler commitFails userFromRow db0 1 ?first) = db0" by blast
  have s: "map Slot (reservation_slots db0) = [1, 0]" by (simp add: db0_def)
  from a b k f1 f2 f3 w2 w3 s show ?thesis by (simp add: prod_eq_iff)
qed

lemma timeUnix_representable:
  "representable sec \<Longrightarrow> timeUnix sec = sec + unixToInternal"
  by (simp add: representable_def timeUnix_def wrapInt64_def unixToInternal_def)

lemma badTimeRange_representable:
  assumes "representable termStart" "representable termEnd" "representable s" "representable e"
  shows "badTimeRange termStart termEnd s e \<longleftrightarrow> termEnd \<le> s \<or> e \<le> termStart"
  using assms by (auto simp: badTimeRange_def timeUnix_representable)

lemma reserveTx_bad_window_iff:
  "fst (reserveTx fails fu db userID req) = Inl (NewHTTPError StatusBadRequest BadReservationTimeRange) \<longleftrightarrow>
   badTimeRange termStartAt termEndAt
     (ReserveLivestreamRequest.StartAt req) (ReserveLivestreamRequest.EndAt req)"
  by (auto simp: reserveTx_def Let_def StatusBadRequest_def StatusInternalServerError_def
      dest!: checkSlots_Message insertTags_Some split: option.splits prod.splits sum.splits)

text \<open>
  C3. The handler does not refuse exactly the windows that start at or after the end of
  the term or end at or before its start. \<^verbatim>\<open>time.Unix\<close> wraps around for instants from
  9223371974719179008 on, which then compare as lying before the term. A request that
  starts at 9223372036854775807, after the end of the term, and ends inside the term is
  accepted and stored; a request that starts at the start of the term and ends at
  9223372036854775807 is refused with "bad reservation time range".
\<close>

theorem reserve_window_check_wraps:
  "termEndAt \<le> 9223372036854775807 \<and>
   reserveLivestreamHandler noFaults userFromRow db0 1 (reserveRequest [1] 9223372036854775807 1700877600) =
     (Inr \<lparr>Livestream.ID = 1, Owner = \<lparr>UserModel.ID = 1, Name = ''isucon''\<rparr>,
           Title = ''title'', Description = ''description'', PlaylistUrl = ''playlist'',
           ThumbnailUrl = ''thumbnail'', Tags = [\<lparr>Tag.ID = 1, Name = ''go''\<rparr>],
           StartAt = 9223372036854775807, EndAt = 1700877600\<rparr>,
      db0\<lparr>livestreams :=
            [\<lparr>LivestreamModel.ID = 1, UserID = 1, Title = ''title'', Description = ''description'',
              PlaylistUrl = ''playlist'', ThumbnailUrl = ''thumbnail'',
              StartAt = 9223372036854775807, EndAt = 1700877600\<rparr>],
          livestream_tags := [\<lparr>LivestreamTagModel.ID = 1, LivestreamID = 1, TagID = 1\<rparr>]\<rparr>) \<and>
   \<not> (termEndAt \<le> 1700874000 \<or> 9223372036854775807 \<le> termStartAt) \<and>
   fst (reserveLivestreamHandler noFaults userFromRow db0 1 (reserveRequest [1] 1700874000 9223372036854775807)) =
     Inl (NewHTTPError StatusBadRequest BadReservationTimeRange)"
  by (simp add: ex_defs reserve_defs)

text \<open>
  For instants that \<^verbatim>\<open>time.Unix\<close> stores without wrapping, the check is the one the
  comparison is written for: it refuses a window exactly when its start is at or after
  the end of the term or its end is at or before the start of the term. The window from
  the term's end to one second later is refused, the window from the term's start to one
  second later passes, and the handler, once its transaction has begun, answers "bad
  reservation time range" exactly in that case.
\<close>

lemma bad_window_iff_no_overlap:
  assumes "representable termStart" "representable termEnd" "representable s" "representable e"
    and "representable (termStart + 1)" "representable (termEnd + 1)"
    and "representable (ReserveLivestreamRequest.StartAt req)"
    and "representable (ReserveLivestreamRequest.EndAt req)"
  shows "(badTimeRange termStart termEnd s e \<longleftrightarrow> termEnd \<le> s \<or> e \<le> termStart) \<and>
   badTimeRange termStart termEnd termEnd (termEnd + 1) \<and>
   (termStart < termEnd \<longrightarrow> \<not> badTimeRange termStart termEnd termStart (termStart + 1)) \<and>
   (\<not> fails BeginTxx \<longrightarrow>
      (fst (reserveLivestreamHandler fails fu db userID req) =
         Inl (NewHTTPError StatusBadRequest BadReservationTimeRange) \<longleftrightarrow>
       termEndAt \<le> ReserveLivestreamRequest.StartAt req \<or>
       ReserveLivestreamRequest.EndAt req \<le> termStartAt))"
proof -
  have t: "representable termStartAt" "representable termEndAt"
    by (simp_all add: representable_def termStartAt_def termEndAt_def unixToInternal_def)
  from assms t show ?thesis
    by (auto simp: badTimeRange_representable handler_begun reserveTx_bad_window_iff)
qed

lemma bad_window_iff_no_overlap_example:
  "fst (reserveLivestreamHandler noFaults userFromRow db0 1 (reserveRequest [1] termEndAt (termEndAt + 1))) =
     Inl (NewHTTPError StatusBadRequest BadReservationTimeRange) \<and>
   fst (reserveLivestreamHandler noFaults userFromRow db0 1 (reserveRequest [1] termStartAt (termStartAt + 1))) \<noteq>
     Inl (NewHTTPError StatusBadRequest BadReservationTimeRange)"
  by (simp add: ex_defs reserve_defs)

text \<open>
  C4. A successful reservation need not lie inside the term: the handler accepts the
  window that starts one hour before the term and ends one hour into it, stores the
  livestream and takes capacity from the slot inside the window. The comment above the
  check says it tests that the window is within the term; the check only refuses windows
  that do not overlap the term.
\<close>

theorem reserve_accepts_window_before_term:
  "ReserveLivestreamRequest.StartAt (reserveRequest [1] 1700870400 1700877600) < termStartAt \<and>
   reserveLivestreamHandler noFaults userFromRow db0 1 (reserveRequest [1] 1700870400 1700877600) =
     (Inr \<lparr>Livestream.ID = 1, Owner = \<lparr>UserModel.ID = 1, Name = ''isucon''\<rparr>,
           Title = ''title'', Description = ''description'', PlaylistUrl = ''playlist'',
           ThumbnailUrl = ''thumbnail'', Tags = [\<lparr>Tag.ID = 1, Name = ''go''\<rparr>],
           StartAt = 1700870400, EndAt = 1700877600\<rparr>,
      db0\<lparr>reservation_slots :=
            [\<lparr>ReservationSlotModel.ID = 1, Slot = 0, StartAt = 1700874000, EndAt = 1700877600\<rparr>,
             \<lparr>ReservationSlotModel.ID = 2, Slot = 0, StartAt = 1700877600, EndAt = 1700881200\<rparr>],
          livestreams :=
            [\<lparr>LivestreamModel.ID = 1, UserID = 1, Title = ''title'', Description = ''description'',
              PlaylistUrl = ''playlist'', ThumbnailUrl = ''thumbnail'',
              StartAt = 1700870400, EndAt = 1700877600\<rparr>],
          livestream_tags := [\<lparr>LivestreamTagModel.ID = 1, LivestreamID = 1, TagID = 1\<rparr>]\<rparr>)"
  by (simp add: ex_defs reserve_defs)

text \<open>
  What the check does guarantee of a successful reservation: the stored seconds of its
  start lie before those of the term's end, and those of its end after those of the
  term's start; for instants stored without wrapping, its window overlaps the term.
\<close>

lemma reserve_success_overlaps_term:
  assumes "fst (reserveLivestreamHandler fails fu db userID req) = Inr livestream"
  shows "timeUnix (ReserveLivestreamRequest.StartAt req) < timeUnix termEndAt"
    and "timeUnix termStartAt < timeUnix (ReserveLivestreamRequest.EndAt req)"
    and "representable (ReserveLivestreamRequest.StartAt req) \<Longrightarrow>
         ReserveLivestreamRequest.StartAt req < termEndAt"
    and "representable (ReserveLivestreamRequest.EndAt req) \<Longrightarrow>
         termStartAt < ReserveLivestreamRequest.EndAt req"
proof -
  have t: "representable termStartAt" "representable termEndAt"
    by (simp_all add: representable_def termStartAt_def termEndAt_def unixToInternal_def)
  from reserveTx_success(1)[OF handler_success(2)[OF assms]]
  show a: "timeUnix (ReserveLivestreamRequest.StartAt req) < timeUnix termEndAt"
    and b: "timeUnix termStartAt < timeUnix (ReserveLivestreamRequest.EndAt req)"
    by (auto simp: badTimeRange_def)
  from a t show "ReserveLivestreamRequest.StartAt req < termEndAt"
    if "representable (ReserveLivestreamRequest.StartAt req)"
    using that by (simp add: timeUnix_representable)
  from b t show "termStartAt < ReserveLivestreamRequest.EndAt req"
    if "representable (ReserveLivestreamRequest.EndAt req)"
    using that by (simp add: timeUnix_representable)
qed

lemma fill_missing_tag:
  assumes "lt \<in> set (livestream_tags db)" "LivestreamTagModel.LivestreamID lt = LivestreamModel.ID lm"
    "TagID lt \<notin> TagModel.ID ` set (tags db)"
  shows "\<exists>e. fillLivestreamResponse fu db lm = Inl e"
proof -
  from assms(1,2) have "lt \<in> set (filter (\<lambda>x. LivestreamTagModel.LivestreamID x = LivestreamModel.ID lm) (livestream_tags db))"
    by simp
  from getTags_missing[OF this assms(3)] show ?thesis
    by (auto simp: fillLivestreamResponse_def split: sum.splits)
qed

lemma insertTags_then_fill:
  assumes "insertTags fails lid 0 db2 ts = (None, db3)" "t \<in> set ts" "t \<notin> TagModel.ID ` set (tags db2)"
    "LivestreamModel.ID lm = lid"
  shows "\<exists>e. fillLivestreamResponse fu db3 lm = Inl e"
proof -
  from insertTags_None_rows[OF assms(1)] assms(2)
  have "t \<in> set (map TagID (filter (\<lambda>lt. LivestreamTagModel.LivestreamID lt = lid) (livestream_tags db3)))"
    by simp
  then obtain lt where lt: "lt \<in> set (livestream_tags db3)" "LivestreamTagModel.LivestreamID lt = lid" "TagID lt = t"
    by auto
  from insertTags_other_tables[OF assms(1)] have "tags db3 = tags db2" by simp
  with assms(3) lt have "TagID lt \<notin> TagModel.ID ` set (tags db3)" by simp
  with lt assms(4) show ?thesis by (intro fill_missing_tag[of lt]) simp_all
qed

lemma reserveTx_missing_tag:
  assumes "t \<in> set (ReserveLivestreamRequest.Tags req)" "t \<notin> TagModel.ID ` set (tags db)"
  shows "\<exists>e. fst (reserveTx fails fu db userID req) = Inl e \<and>
     (Code e = StatusInternalServerError \<or>
      e = NewHTTPError StatusBadRequest BadReservationTimeRange \<or>
      e = NewHTTPError StatusBadRequest
            (CannotReserve termStartAt termEndAt
               (ReserveLivestreamRequest.StartAt req) (ReserveLivestreamRequest.EndAt req)))"
proof -
  let ?db1 = "updateSlots req db"
  let ?lid = "lastInsertId (map LivestreamModel.ID (livestreams ?db1))"
  let ?lm = "\<lparr>LivestreamModel.ID = ?lid,
              UserID = userID,
              Title = ReserveLivestreamRequest.Title req,
              Description = ReserveLivestreamRequest.Description req,
              PlaylistUrl = ReserveLivestreamRequest.PlaylistUrl req,
              ThumbnailUrl = ReserveLivestreamRequest.ThumbnailUrl req,
              StartAt = ReserveLivestreamRequest.StartAt req,
              EndAt = ReserveLivestreamRequest.EndAt req\<rparr>"
  let ?db2 = "?db1\<lparr>livestreams := livestreams ?db1 @ [?lm]\<rparr>"
  obtain r db3 where it: "insertTags fails ?lid 0 ?db2 (ReserveLivestreamRequest.Tags req) = (r, db3)"
    by (cases "insertTags fails ?lid 0 ?db2 (ReserveLivestreamRequest.Tags req)") blast
  have some: "e = NewHTTPError StatusInternalServerError FailedToInsertLivestreamTag" if "r = Some e" for e
    using insertTags_Some it that by blast
  have fl: "\<exists>e. fillLivestreamResponse fu db3 ?lm = Inl e" if "r = None"
  proof -
    have "t \<notin> TagModel.ID ` set (tags ?db2)" using assms(2) by (simp add: updateSlots_def)
    moreover have "LivestreamModel.ID ?lm = ?lid" by simp
    ultimately show ?thesis
      using insertTags_then_fill[of fails ?lid ?db2 "ReserveLivestreamRequest.Tags req" db3 t ?lm fu]
        it that assms(1) by blast
  qed
  show ?thesis
  proof (cases "checkSlots fails db req 0 (filter (inWindow req) (reservation_slots db))")
    case (Some e)
    from checkSlots_Message[OF Some] show ?thesis
      using Some by (auto simp: reserveTx_def)
  next
    case None
    show ?thesis
    proof (cases r)
      case (Some e)
      with some it None show ?thesis
        by (auto simp: reserveTx_def Let_def)
    next
      case n: None
      with fl obtain e where "fillLivestreamResponse fu db3 ?lm = Inl e" by blast
      with it n None show ?thesis
        by (auto simp: reserveTx_def Let_def)
    qed
  qed
qed

text \<open>
  C9, as amended. If a tag id of the request is not the id of a stored tag, the handler
  answers with an error and the stored tables are unchanged. The error has status 500,
  as storage failures have, unless the request was refused before by the window check or
  the slot check (status 400).
\<close>

theorem reserve_missing_tag_fails:
  assumes "t \<in> set (ReserveLivestreamRequest.Tags req)" "t \<notin> TagModel.ID ` set (tags db)"
  shows "\<exists>e. fst (reserveLivestreamHandler fails fu db userID req) = Inl e \<and>
     snd (reserveLivestreamHandler fails fu db userID req) = db \<and>
     (Code e = StatusInternalServerError \<or>
      e = NewHTTPError StatusBadRequest BadReservationTimeRange \<or>
      e = NewHTTPError StatusBadRequest
            (CannotReserve termStartAt termEndAt
               (ReserveLivestreamRequest.StartAt req) (ReserveLivestreamRequest.EndAt req)))"
proof -
  from reserveTx_missing_tag[OF assms, of fails fu userID] obtain e where
    e: "fst (reserveTx fails fu db userID req) = Inl e"
       "Code e = StatusInternalServerError \<or>
        e = NewHTTPError StatusBadRequest BadReservationTimeRange \<or>
        e = NewHTTPError StatusBadRequest
            (CannotReserve termStartAt termEndAt
               (ReserveLivestreamRequest.StartAt req) (ReserveLivestreamRequest.EndAt req))"
    by blast
  show ?thesis
  proof (cases "fails BeginTxx")
    case True
    then show ?thesis by (simp add: reserveLivestreamHandler_def)
  next
    case False
    with e(1) reserveTx_error_stored[OF e(1)]
    have "reserveLivestreamHandler fails fu db userID req = (Inl e, db)"
      by (simp add: handler_begun)
    with e(2) show ?thesis by simp
  qed
qed

theorem reserve_missing_tag_fails_witness:
  "99 \<in> set (ReserveLivestreamRequest.Tags (reserveRequest [1, 99] 1700874000 1700877600)) \<and>
   99 \<notin> TagModel.ID ` set (tags db0) \<and>
   isl (fst (reserveLivestreamHandler noFaults userFromRow db0 1 (reserveRequest [1, 99] 1700874000 1700877600))) \<and>
   snd (reserveLivestreamHandler noFaults userFromRow db0 1 (reserveRequest [1, 99] 1700874000 1700877600)) = db0 \<and>
   map TagID (livestream_tags (view (snd (reserveTx noFaults userFromRow db0 1
      (reserveRequest [1, 99] 1700874000 1700877600))))) = [1, 99]"
proof -
  have h1: "99 \<in> set (ReserveLivestreamRequest.Tags (reserveRequest [1, 99] 1700874000 1700877600))"
    by (simp add: reserveRequest_def)
  have h2: "99 \<notin> TagModel.ID ` set (tags db0)" by (simp add: db0_def)
  have w: "map TagID (livestream_tags (view (snd (reserveTx noFaults userFromRow db0 1
      (reserveRequest [1, 99] 1700874000 1700877600))))) = [1, 99]"
    by (simp add: ex_defs reserve_defs)
  from reserve_missing_tag_fails[OF h1 h2, of noFaults userFromRow 1] h1 h2 w
  show ?thesis by (auto simp: isl_def)
qed

text \<open>
  C9, as stated, fails: a request whose only tag id, 99, is not stored is answered with
  status 500 "failed to fill livestream", the very response a storage failure during the
  fill produces, and not with a client error.
\<close>

theorem reserve_missing_tag_is_internal_error:
  "99 \<in> set (ReserveLivestreamRequest.Tags (reserveRequest [99] 1700874000 1700877600)) \<and>
   99 \<notin> TagModel.ID ` set (tags db0) \<and>
   fst (reserveLivestreamHandler noFaults userFromRow db0 1 (reserveRequest [99] 1700874000 1700877600)) =
     Inl (NewHTTPError StatusInternalServerError FailedToFillLivestream) \<and>
   fst (reserveLivestreamHandler fillFails userFromRow db0 1 (reserveRequest [1] 1700874000 1700877600)) =
     Inl (NewHTTPError StatusInternalServerError FailedToFillLivestream) \<and>
   StatusInternalServerError \<noteq> StatusBadRequest"
  by (simp add: ex_defs reserve_defs)

section \<open>Properties of the bulk functions\<close>

text \<open>
  C8. A livestream row without tags does not get an entry with an empty tag list when no
  row of the input has a tag: the list of tag ids is then empty, \<^verbatim>\<open>sqlx.In\<close> refuses
  it, and the function returns "failed to build tag query" after two statements. The
  branch that initialises the tag list of a row without tags is never reached.
\<close>

theorem bulk_fails_when_no_row_has_tags:
  assumes "livestreamModels \<noteq> []"
    and "filter (\<lambda>lt. LivestreamTagModel.LivestreamID lt \<in> LivestreamModel.ID ` set livestreamModels)
           (livestream_tags db) = []"
    and "fub (filter (\<lambda>u. UserModel.ID u \<in> LivestreamModel.UserID ` set livestreamModels) (users db)) = Inr ownerMap"
  shows "fillLivestreamResponseBulk fub db livestreamModels =
           ([SelectUsersIn (map LivestreamModel.UserID livestreamModels),
             SelectLivestreamTagsIn (map LivestreamModel.ID livestreamModels)],
            Inl (Errorf ''failed to build tag query'' ErrEmptySlice))"
  using assms by (simp add: fillLivestreamResponseBulk_def sqlx_In_def Let_def)

theorem bulk_fails_when_no_row_has_tags_witness:
  "filter (\<lambda>lt. LivestreamTagModel.LivestreamID lt = 1) (livestream_tags db1) = [] \<and>
   snd (fillLivestreamResponseBulk usersFromRows db1 [livestreamRow 1 1]) =
     Inl (Errorf ''failed to build tag query'' ErrEmptySlice)"
proof -
  have h1: "[livestreamRow 1 1] \<noteq> []" by simp
  have h2: "filter (\<lambda>lt. LivestreamTagModel.LivestreamID lt \<in> LivestreamModel.ID ` set [livestreamRow 1 1])
           (livestream_tags db1) = []"
    by (simp add: bulk_ex_defs)
  have h3: "usersFromRows (filter (\<lambda>u. UserModel.ID u \<in> LivestreamModel.UserID ` set [livestreamRow 1 1]) (users db1))
      = Inr (map_of (map (\<lambda>u. (UserModel.ID u, u))
           (filter (\<lambda>u. UserModel.ID u \<in> LivestreamModel.UserID ` set [livestreamRow 1 1]) (users db1))))"
    by (simp add: usersFromRows_def)
  have h4: "filter (\<lambda>lt. LivestreamTagModel.LivestreamID lt = 1) (livestream_tags db1) = []"
    by (simp add: bulk_ex_defs)
  from bulk_fails_when_no_row_has_tags[where fub = usersFromRows, OF h1 h2 h3] h4 show ?thesis by simp
qed

text \<open>The zero-tag row is filled with an empty tag list once another row of the input has a tag.\<close>

lemma bulk_zero_tags_beside_tagged_row:
  "(case snd (fillLivestreamResponseBulk usersFromRows db1 [livestreamRow 1 1, livestreamRow 2 1]) of
      Inl e \<Rightarrow> None
    | Inr m \<Rightarrow> map_option Livestream.Tags (m 1)) = Some []"
  by (simp add: bulk_ex_defs bulk_defs)

text \<open>
  C5. On two rows whose owners exist and which have no tags, the single-entity path fills
  each row, with an empty tag list, and the bulk path returns an error.
\<close>

theorem bulk_differs_from_single_without_tags:
  "fillLivestreamResponse userFromRow db1 (livestreamRow 3 2) =
     Inr \<lparr>Livestream.ID = 3, Owner = \<lparr>UserModel.ID = 2, Name = ''kamome''\<rparr>,
          Title = ''title'', Description = ''description'', PlaylistUrl = ''playlist'',
          ThumbnailUrl = ''thumbnail'', Tags = [], StartAt = 1700874000, EndAt = 1700877600\<rparr> \<and>
   fillLivestreamResponse userFromRow db1 (livestreamRow 1 1) =
     Inr \<lparr>Livestream.ID = 1, Owner = \<lparr>UserModel.ID = 1, Name = ''isucon''\<rparr>,
          Title = ''title'', Description = ''description'', PlaylistUrl = ''playlist'',
          ThumbnailUrl = ''thumbnail'', Tags = [], StartAt = 1700874000, EndAt = 1700877600\<rparr> \<and>
   snd (fillLivestreamResponseBulk usersFromRows db1 [livestreamRow 3 2, livestreamRow 1 1]) =
     Inl (Errorf ''failed to build tag query'' ErrEmptySlice)"
  by (simp add: bulk_ex_defs bulk_defs)

lemma foldl_appendTag:
  "foldl appendTag m xs k =
     (if filter (\<lambda>lt. LivestreamTagModel.LivestreamID lt = k) xs = [] then m k
      else Some ((case m k of None \<Rightarrow> [] | Some zs \<Rightarrow> zs) @
                 filter (\<lambda>lt. LivestreamTagModel.LivestreamID lt = k) xs))"
  by (induction xs arbitrary: m) (auto simp: appendTag_def)

lemma livestreamTagMap_lookup:
  "(case foldl appendTag Map.empty xs k of None \<Rightarrow> [] | Some zs \<Rightarrow> zs) =
     filter (\<lambda>lt. LivestreamTagModel.LivestreamID lt = k) xs"
  by (simp add: foldl_appendTag)

lemma foldl_putTag:
  "foldl putTag m xs k = Some v \<Longrightarrow>
     m k = Some v \<or> (\<exists>t\<in>set xs. TagModel.ID t = k \<and> v = \<lparr>Tag.ID = TagModel.ID t, Name = TagModel.Name t\<rparr>)"
proof (induction xs arbitrary: m)
  case Nil
  then show ?case by simp
next
  case (Cons a xs)
  from Cons.IH[of "putTag m a"] Cons.prems show ?case
    by (auto simp: putTag_def split: if_splits)
qed

lemma lookupTags_getTags:
  assumes "distinct (map TagModel.ID (tags db))"
    and "\<And>k v. tagMap k = Some v \<Longrightarrow>
           \<exists>t\<in>set (tags db). TagModel.ID t = k \<and> v = \<lparr>Tag.ID = TagModel.ID t, Name = TagModel.Name t\<rparr>"
  shows "lookupTags tagMap lts = Inr tgs \<Longrightarrow> getTags db lts = Inr tgs"
proof (induction lts arbitrary: tgs)
  case Nil
  then show ?case by simp
next
  case (Cons lt lts)
  from Cons.prems obtain tag rest where
    t: "tagMap (TagID lt) = Some tag" and r: "lookupTags tagMap lts = Inr rest" and tg: "tgs = tag # rest"
    by (auto split: option.splits sum.splits)
  from assms(2)[OF t] obtain tm where
    tm: "tm \<in> set (tags db)" "TagModel.ID tm = TagID lt" "tag = \<lparr>Tag.ID = TagModel.ID tm, Name = TagModel.Name tm\<rparr>"
    by blast
  from filter_key_distinct[OF assms(1) tm(1)] tm(2)
  have "filter (\<lambda>y. TagModel.ID y = TagID lt) (tags db) = [tm]" by simp
  with Cons.IH[OF r] tm(3) tg show ?case by (simp add: GetContext_def)
qed

lemma buildLivestreams_other:
  "buildLivestreams ownerMap livestreamTagMap tagMap acc lms = Inr m \<Longrightarrow>
   k \<notin> LivestreamModel.ID ` set lms \<Longrightarrow> m k = acc k"
proof (induction lms arbitrary: acc)
  case Nil
  then show ?case by simp
next
  case (Cons a lms)
  from Cons.prems(1) obtain x where
    "buildLivestreams ownerMap livestreamTagMap tagMap (acc(LivestreamModel.ID a \<mapsto> x)) lms = Inr m"
    by (auto simp: Let_def split: option.splits sum.splits)
  from Cons.IH[OF this] Cons.prems(2) show ?case by auto
qed

lemma buildLivestreams_entry:
  assumes "buildLivestreams ownerMap livestreamTagMap tagMap acc lms = Inr m"
    and "lm \<in> set lms"
    and "\<forall>l\<in>set lms. LivestreamModel.ID l = LivestreamModel.ID lm \<longrightarrow> l = lm"
  shows "\<exists>owner tgs.
           ownerMap (LivestreamModel.UserID lm) = Some owner \<and>
           lookupTags tagMap (case livestreamTagMap (LivestreamModel.ID lm) of None \<Rightarrow> [] | Some xs \<Rightarrow> xs) = Inr tgs \<and>
           m (LivestreamModel.ID lm) =
             Some \<lparr>Livestream.ID = LivestreamModel.ID lm, Owner = owner,
                   Title = LivestreamModel.Title lm, Description = LivestreamModel.Description lm,
                   PlaylistUrl = LivestreamModel.PlaylistUrl lm, ThumbnailUrl = LivestreamModel.ThumbnailUrl lm,
                   Tags = tgs, StartAt = LivestreamModel.StartAt lm, EndAt = LivestreamModel.EndAt lm\<rparr>"
  using assms
proof (induction lms arbitrary: acc)
  case Nil
  then show ?case by simp
next
  case (Cons a lms)
  from Cons.prems(1) obtain owner tgs where
    o: "ownerMap (LivestreamModel.UserID a) = Some owner"
    and t: "lookupTags tagMap (case livestreamTagMap (LivestreamModel.ID a) of None \<Rightarrow> [] | Some xs \<Rightarrow> xs) = Inr tgs"
    and b: "buildLivestreams ownerMap livestreamTagMap tagMap
       (acc(LivestreamModel.ID a \<mapsto>
          \<lparr>Livestream.ID = LivestreamModel.ID a, Owner = owner,
           Title = LivestreamModel.Title a, Description = LivestreamModel.Description a,
           PlaylistUrl = LivestreamModel.PlaylistUrl a, ThumbnailUrl = LivestreamModel.ThumbnailUrl a,
           Tags = tgs, StartAt = LivestreamModel.StartAt a, EndAt = LivestreamModel.EndAt a\<rparr>)) lms = Inr m"
    by (auto simp: Let_def split: option.splits sum.splits)
  show ?case
  proof (cases "lm \<in> set lms")
    case True
    from Cons.IH[OF b True] Cons.prems(3) show ?thesis by simp
  next
    case False
    with Cons.prems(2) have eq: "a = lm" by simp
    have "LivestreamModel.ID lm \<notin> LivestreamModel.ID ` set lms"
    proof
      assume "LivestreamModel.ID lm \<in> LivestreamModel.ID ` set lms"
      then obtain l where "l \<in> set lms" "LivestreamModel.ID l = LivestreamModel.ID lm" by auto
      with Cons.prems(3) have "l = lm" by simp
      with \<open>l \<in> set lms\<close> False show False by simp
    qed
    from buildLivestreams_other[OF b this] o t eq show ?thesis by simp
  qed
qed

text \<open>
  Apart from that failure the two paths agree. Let the user tables and the tag table have
  distinct ids, let every entry of a map returned by \<open>fub\<close> be the response \<open>fu\<close> gives
  for a row it was passed, and let rows of the input with the same id be equal. Then,
  whenever the bulk path succeeds, the entry it holds for a row's id is the livestream
  the single-entity path returns for that row.
\<close>

lemma bulk_agrees_with_single:
  assumes users: "\<And>ums m k v. fub ums = Inr m \<Longrightarrow> m k = Some v \<Longrightarrow>
                    \<exists>u\<in>set ums. UserModel.ID u = k \<and> fu u = Inr v"
    and du: "distinct (map UserModel.ID (users db))"
    and dt: "distinct (map TagModel.ID (tags db))"
    and ok: "snd (fillLivestreamResponseBulk fub db lms) = Inr livestreamMap"
    and lm: "lm \<in> set lms"
    and ids: "\<forall>l\<in>set lms. LivestreamModel.ID l = LivestreamModel.ID lm \<longrightarrow> l = lm"
  shows "\<exists>l. livestreamMap (LivestreamModel.ID lm) = Some l \<and> fillLivestreamResponse fu db lm = Inr l"
proof -
  let ?ownerModels = "filter (\<lambda>u. UserModel.ID u \<in> set (map LivestreamModel.UserID lms)) (users db)"
  let ?ltms = "filter (\<lambda>lt. LivestreamTagModel.LivestreamID lt \<in> set (map LivestreamModel.ID lms)) (livestream_tags db)"
  let ?ltMap = "foldl appendTag Map.empty ?ltms"
  let ?tagModels = "filter (\<lambda>t. TagModel.ID t \<in> set (map TagID ?ltms)) (tags db)"
  let ?tagMap = "foldl putTag Map.empty ?tagModels"
  from lm have ne: "lms \<noteq> []" by auto
  from ok ne obtain ownerMap where
    om: "fub ?ownerModels = Inr ownerMap"
    and b: "buildLivestreams ownerMap ?ltMap ?tagMap Map.empty lms = Inr livestreamMap"
    by (auto simp: fillLivestreamResponseBulk_def sqlx_In_def Let_def split: sum.splits if_splits)
  from buildLivestreams_entry[OF b lm ids] obtain owner tgs where
    o: "ownerMap (LivestreamModel.UserID lm) = Some owner"
    and t: "lookupTags ?tagMap (case ?ltMap (LivestreamModel.ID lm) of None \<Rightarrow> [] | Some xs \<Rightarrow> xs) = Inr tgs"
    and e: "livestreamMap (LivestreamModel.ID lm) =
             Some \<lparr>Livestream.ID = LivestreamModel.ID lm, Owner = owner,
                   Title = LivestreamModel.Title lm, Description = LivestreamModel.Description lm,
                   PlaylistUrl = LivestreamModel.PlaylistUrl lm, ThumbnailUrl = LivestreamModel.ThumbnailUrl lm,
                   Tags = tgs, StartAt = LivestreamModel.StartAt lm, EndAt = LivestreamModel.EndAt lm\<rparr>"
    by blast
  \<comment> \<open>the owner\<close>
  from users[OF om o] obtain u where
    u: "u \<in> set ?ownerModels" "UserModel.ID u = LivestreamModel.UserID lm" "fu u = Inr owner" by blast
  then have "u \<in> set (users db)" by simp
  from filter_key_distinct[OF du this] u(2)
  have get: "filter (\<lambda>y. UserModel.ID y = LivestreamModel.UserID lm) (users db) = [u]" by simp
  \<comment> \<open>the join rows\<close>
  have "(case ?ltMap (LivestreamModel.ID lm) of None \<Rightarrow> [] | Some xs \<Rightarrow> xs) =
        filter (\<lambda>lt. LivestreamTagModel.LivestreamID lt = LivestreamModel.ID lm) ?ltms"
    by (rule livestreamTagMap_lookup)
  also have "\<dots> = filter (\<lambda>lt. LivestreamTagModel.LivestreamID lt = LivestreamModel.ID lm) (livestream_tags db)"
    using lm by (auto intro!: filter_cong)
  finally have rows: "(case ?ltMap (LivestreamModel.ID lm) of None \<Rightarrow> [] | Some xs \<Rightarrow> xs) =
        filter (\<lambda>lt. LivestreamTagModel.LivestreamID lt = LivestreamModel.ID lm) (livestream_tags db)" .
  \<comment> \<open>the tags\<close>
  have tm: "\<exists>t\<in>set (tags db). TagModel.ID t = k \<and> v = \<lparr>Tag.ID = TagModel.ID t, Name = TagModel.Name t\<rparr>"
    if "?tagMap k = Some v" for k v
    using foldl_putTag[OF that] by auto
  from lookupTags_getTags[OF dt tm] t rows
  have "getTags db (filter (\<lambda>lt. LivestreamTagModel.LivestreamID lt = LivestreamModel.ID lm) (livestream_tags db)) = Inr tgs"
    by simp
  with get u(3) e show ?thesis
    by (simp add: fillLivestreamResponse_def GetContext_def)
qed

lemma bulk_agrees_with_single_example:
  "(case snd (fillLivestreamResponseBulk usersFromRows db1 [livestreamRow 1 1, livestreamRow 2 1]) of
      Inl e \<Rightarrow> None
    | Inr m \<Rightarrow> m 1) = Some (projr (fillLivestreamResponse userFromRow db1 (livestreamRow 1 1))) \<and>
   (case snd (fillLivestreamResponseBulk usersFromRows db1 [livestreamRow 1 1, livestreamRow 2 1]) of
      Inl e \<Rightarrow> None
    | Inr m \<Rightarrow> m 2) = Some (projr (fillLivestreamResponse userFromRow db1 (livestreamRow 2 1)))"
  by (simp add: bulk_ex_defs bulk_defs)


lemma livestream_bulk_queries:
  assumes "livestreamModels \<noteq> []"
  shows "(\<exists>n\<in>{1, 2, 3}. fst (fillLivestreamResponseBulk fub db livestreamModels) =
            take n (livestreamQueries db livestreamModels)) \<and>
         (snd (fillLivestreamResponseBulk fub db livestreamModels) = Inr m \<longrightarrow>
            fst (fillLivestreamResponseBulk fub db livestreamModels) = livestreamQueries db livestreamModels)"
  using assms
  by (auto simp: fillLivestreamResponseBulk_def livestreamQueries_def sqlx_In_def Let_def
      split: sum.splits)

lemma livestream_bulk_queries_empty:
  "fst (fillLivestreamResponseBulk fub db []) = [] \<and> snd (fillLivestreamResponseBulk fub db []) = Inr Map.empty"
  by (simp add: fillLivestreamResponseBulk_def)

lemma buildReactions_resolves:
  "buildReactions userMap livestreamMap rms = Inr reactions \<Longrightarrow> r \<in> set rms \<Longrightarrow>
     livestreamMap (ReactionModel.LivestreamID r) \<noteq> None \<and> userMap (ReactionModel.UserID r) \<noteq> None"
  by (induction rms arbitrary: reactions) (auto split: option.splits sum.splits)

lemma reaction_bulk_queries:
  assumes "reactionModels \<noteq> []"
  shows "(\<exists>n\<in>{1, 2, 3, 4, 5}. fst (fillReactionResponseBulk fub db reactionModels) =
            take n (reactionQueries db reactionModels)) \<and>
         (snd (fillReactionResponseBulk fub db reactionModels) = Inr reactions \<longrightarrow>
            fst (fillReactionResponseBulk fub db reactionModels) = reactionQueries db reactionModels)"
proof -
  let ?lms = "filter (\<lambda>l. LivestreamModel.ID l \<in> set (map ReactionModel.LivestreamID reactionModels)) (livestreams db)"
  let ?L = "fillLivestreamResponseBulk fub db ?lms"
  let ?q12 = "[SelectUsersIn (map ReactionModel.UserID reactionModels),
               SelectLivestreamsIn (map ReactionModel.LivestreamID reactionModels)]"
  have rq: "reactionQueries db reactionModels = ?q12 @ livestreamQueries db ?lms"
    by (simp add: reactionQueries_def)
  have R: "fillReactionResponseBulk fub db reactionModels =
      (case fub (filter (\<lambda>u. UserModel.ID u \<in> set (map ReactionModel.UserID reactionModels)) (users db)) of
         Inl err \<Rightarrow> (take 1 ?q12, Inl (Errorf ''failed to process user responses'' err))
       | Inr userMap \<Rightarrow>
          (case snd ?L of
             Inl err \<Rightarrow> (?q12 @ fst ?L, Inl (Errorf ''failed to process livestream responses'' err))
           | Inr livestreamMap \<Rightarrow> (?q12 @ fst ?L, buildReactions userMap livestreamMap reactionModels)))"
    using assms
    by (auto simp: fillReactionResponseBulk_def sqlx_In_def Let_def split: sum.splits prod.splits)
  have pre: "\<exists>n\<in>{2, 3, 4, 5}. ?q12 @ fst ?L = take n (reactionQueries db reactionModels)"
  proof (cases "?lms = []")
    case True
    then have "fst ?L = []" using livestream_bulk_queries_empty[of fub db] by simp
    then show ?thesis by (simp add: rq)
  next
    case False
    from livestream_bulk_queries[OF False, of fub db] obtain n where
      "n \<in> {1, 2, 3}" "fst ?L = take n (livestreamQueries db ?lms)" by blast
    then show ?thesis by (auto simp: rq)
  qed
  have first: "\<exists>n\<in>{1, 2, 3, 4, 5}. fst (fillReactionResponseBulk fub db reactionModels) =
            take n (reactionQueries db reactionModels)"
  proof (cases "fub (filter (\<lambda>u. UserModel.ID u \<in> set (map ReactionModel.UserID reactionModels)) (users db))")
    case (Inl err)
    then have "fst (fillReactionResponseBulk fub db reactionModels) = take 1 (reactionQueries db reactionModels)"
      by (simp add: R rq)
    then show ?thesis by blast
  next
    case (Inr userMap)
    then have "fst (fillReactionResponseBulk fub db reactionModels) = ?q12 @ fst ?L"
      by (simp add: R split: sum.splits)
    with pre show ?thesis by auto
  qed
  have second: "fst (fillReactionResponseBulk fub db reactionModels) = reactionQueries db reactionModels"
    if ok: "snd (fillReactionResponseBulk fub db reactionModels) = Inr reactions"
  proof -
    from ok obtain userMap livestreamMap where
      um: "fub (filter (\<lambda>u. UserModel.ID u \<in> set (map ReactionModel.UserID reactionModels)) (users db)) = Inr userMap"
      and lm: "snd ?L = Inr livestreamMap"
      and br: "buildReactions userMap livestreamMap reactionModels = Inr reactions"
      by (auto simp: R split: sum.splits)
    from assms obtain r where r: "r \<in> set reactionModels" by (cases reactionModels) auto
    from buildReactions_resolves[OF br r] have ne: "livestreamMap (ReactionModel.LivestreamID r) \<noteq> None" by simp
    have "?lms \<noteq> []"
    proof
      assume "?lms = []"
      then have "snd ?L = Inr Map.empty" using livestream_bulk_queries_empty[of fub db] by simp
      with lm ne show False by simp
    qed
    from livestream_bulk_queries[OF this, of fub db livestreamMap] lm
    have "fst ?L = livestreamQueries db ?lms" by simp
    with um lm show ?thesis by (simp add: R rq)
  qed
  from first second show ?thesis by blast
qed

text \<open>
  What holds of every run: for a non-empty input the livestream aggregation sends a
  non-empty prefix of three fixed statements (users, livestream_tags, tags), and all
  three when it succeeds; the reaction aggregation sends a non-empty prefix of five
  (users, livestreams, and the three of the livestream aggregation), and all five when
  it succeeds.
\<close>

lemma bulk_query_count:
  "(livestreamModels \<noteq> [] \<longrightarrow>
      (\<exists>n\<in>{1, 2, 3}. fst (fillLivestreamResponseBulk fub db livestreamModels) =
          take n (livestreamQueries db livestreamModels)) \<and>
      (\<forall>m. snd (fillLivestreamResponseBulk fub db livestreamModels) = Inr m \<longrightarrow>
          fst (fillLivestreamResponseBulk fub db livestreamModels) = livestreamQueries db livestreamModels)) \<and>
   (reactionModels \<noteq> [] \<longrightarrow>
      (\<exists>n\<in>{1, 2, 3, 4, 5}. fst (fillReactionResponseBulk fub db reactionModels) =
          take n (reactionQueries db reactionModels)) \<and>
      (\<forall>rs. snd (fillReactionResponseBulk fub db reactionModels) = Inr rs \<longrightarrow>
          fst (fillReactionResponseBulk fub db reactionModels) = reactionQueries db reactionModels)) \<and>
   length (livestreamQueries db livestreamModels) = 3 \<and>
   length (reactionQueries db reactionModels) = 5"
  using livestream_bulk_queries[of livestreamModels fub db] reaction_bulk_queries[of reactionModels fub db]
  by (simp add: livestreamQueries_def reactionQueries_def)

lemma bulk_query_count_example:
  "fst (fillLivestreamResponseBulk usersFromRows db1 [livestreamRow 1 1, livestreamRow 2 1, livestreamRow 3 2]) =
     [SelectUsersIn [1, 1, 2], SelectLivestreamTagsIn [1, 2, 3], SelectTagsIn [2, 1]] \<and>
   fst (fillReactionResponseBulk usersFromRows db1 [reactionRow 7 1 2, reactionRow 3 2 2, reactionRow 5 1 2]) =
     [SelectUsersIn [1, 2, 1], SelectLivestreamsIn [2, 2, 2],
      SelectUsersIn [1], SelectLivestreamTagsIn [2], SelectTagsIn [2, 1]]"
proof -
  let ?lms = "[livestreamRow 1 1, livestreamRow 2 1, livestreamRow 3 2]"
  let ?rms = "[reactionRow 7 1 2, reactionRow 3 2 2, reactionRow 5 1 2]"
  have l: "\<exists>m. snd (fillLivestreamResponseBulk usersFromRows db1 ?lms) = Inr m"
    by (simp add: bulk_ex_defs bulk_defs)
  have r: "\<exists>rs. snd (fillReactionResponseBulk usersFromRows db1 ?rms) = Inr rs"
    by (simp add: bulk_ex_defs bulk_defs)
  have lq: "livestreamQueries db1 ?lms = [SelectUsersIn [1, 1, 2], SelectLivestreamTagsIn [1, 2, 3], SelectTagsIn [2, 1]]"
    by (simp add: bulk_ex_defs livestreamQueries_def)
  have rq: "reactionQueries db1 ?rms = [SelectUsersIn [1, 2, 1], SelectLivestreamsIn [2, 2, 2],
      SelectUsersIn [1], SelectLivestreamTagsIn [2], SelectTagsIn [2, 1]]"
    by (simp add: bulk_ex_defs livestreamQueries_def reactionQueries_def)
  from bulk_query_count[of ?lms usersFromRows db1 ?rms] l r
  have "fst (fillLivestreamResponseBulk usersFromRows db1 ?lms) = livestreamQueries db1 ?lms"
       "fst (fillReactionResponseBulk usersFromRows db1 ?rms) = reactionQueries db1 ?rms"
    by auto
  with lq rq show ?thesis by simp
qed

text \<open>
  C7, as stated, fails: two livestream rows of the same owner send the key list [1, 1] to
  the users statement, and two reactions to the same livestream by the same user send
  [1, 1] and [2, 2].
\<close>

theorem bulk_key_lists_keep_duplicates:
  "fst (fillLivestreamResponseBulk usersFromRows db1 [livestreamRow 1 1, livestreamRow 2 1]) =
     [SelectUsersIn [1, 1], SelectLivestreamTagsIn [1, 2], SelectTagsIn [2, 1]] \<and>
   fst (fillReactionResponseBulk usersFromRows db1 [reactionRow 7 1 2, reactionRow 3 1 2]) =
     [SelectUsersIn [1, 1], SelectLivestreamsIn [2, 2],
      SelectUsersIn [1], SelectLivestreamTagsIn [2], SelectTagsIn [2, 1]] \<and>
   \<not> distinct [1, 1 :: int] \<and> \<not> distinct [2, 2 :: int]"
  by (simp add: bulk_ex_defs bulk_defs)

text \<open>
  C7, as amended. For a non-empty input the first statement is the users statement, and
  its key list holds the user id of every input row, in input order, duplicates kept;
  the key list of the livestream_tags statement (of the livestreams statement, for
  reactions) holds the livestream id of every input row in the same way.
\<close>

theorem bulk_key_lists_one_key_per_row:
  "(livestreamModels \<noteq> [] \<longrightarrow>
      fst (fillLivestreamResponseBulk fub db livestreamModels) \<noteq> [] \<and>
      hd (fst (fillLivestreamResponseBulk fub db livestreamModels)) =
        SelectUsersIn (map LivestreamModel.UserID livestreamModels) \<and>
      (\<forall>ids. SelectLivestreamTagsIn ids \<in> set (fst (fillLivestreamResponseBulk fub db livestreamModels)) \<longrightarrow>
         ids = map LivestreamModel.ID livestreamModels)) \<and>
   (reactionModels \<noteq> [] \<longrightarrow>
      fst (fillReactionResponseBulk fub db reactionModels) \<noteq> [] \<and>
      hd (fst (fillReactionResponseBulk fub db reactionModels)) =
        SelectUsersIn (map ReactionModel.UserID reactionModels) \<and>
      (\<forall>ids. SelectLivestreamsIn ids \<in> set (fst (fillReactionResponseBulk fub db reactionModels)) \<longrightarrow>
         ids = map ReactionModel.LivestreamID reactionModels))"
proof (intro conjI impI)
  assume ne: "livestreamModels \<noteq> []"
  from livestream_bulk_queries[OF ne, of fub db] obtain n where
    n: "n \<in> {1, 2, 3}" "fst (fillLivestreamResponseBulk fub db livestreamModels) =
          take n (livestreamQueries db livestreamModels)" by blast
  from n show "fst (fillLivestreamResponseBulk fub db livestreamModels) \<noteq> []"
    by (auto simp: livestreamQueries_def)
  from n show "hd (fst (fillLivestreamResponseBulk fub db livestreamModels)) =
        SelectUsersIn (map LivestreamModel.UserID livestreamModels)"
    by (auto simp: livestreamQueries_def)
  from n show "\<forall>ids. SelectLivestreamTagsIn ids \<in> set (fst (fillLivestreamResponseBulk fub db livestreamModels)) \<longrightarrow>
         ids = map LivestreamModel.ID livestreamModels"
    by (auto simp: livestreamQueries_def)
next
  assume ne: "reactionModels \<noteq> []"
  from reaction_bulk_queries[OF ne, of fub db] obtain n where
    n: "n \<in> {1, 2, 3, 4, 5}" "fst (fillReactionResponseBulk fub db reactionModels) =
          take n (reactionQueries db reactionModels)" by blast
  from n show "fst (fillReactionResponseBulk fub db reactionModels) \<noteq> []"
    by (auto simp: reactionQueries_def livestreamQueries_def)
  from n show "hd (fst (fillReactionResponseBulk fub db reactionModels)) =
        SelectUsersIn (map ReactionModel.UserID reactionModels)"
    by (auto simp: reactionQueries_def livestreamQueries_def)
  from n show "\<forall>ids. SelectLivestreamsIn ids \<in> set (fst (fillReactionResponseBulk fub db reactionModels)) \<longrightarrow>
         ids = map ReactionModel.LivestreamID reactionModels"
    by (auto simp: reactionQueries_def livestreamQueries_def)
qed

theorem bulk_key_lists_one_key_per_row_witness:
  "hd (fst (fillLivestreamResponseBulk usersFromRows db1 [livestreamRow 2 1, livestreamRow 1 1, livestreamRow 2 1])) =
     SelectUsersIn [1, 1, 1] \<and>
   SelectLivestreamTagsIn [2, 1, 2] \<in>
     set (fst (fillLivestreamResponseBulk usersFromRows db1 [livestreamRow 2 1, livestreamRow 1 1, livestreamRow 2 1])) \<and>
   hd (fst (fillReactionResponseBulk usersFromRows db1 [reactionRow 7 2 2, reactionRow 3 1 2])) =
     SelectUsersIn [2, 1] \<and>
   SelectLivestreamsIn [2, 2] \<in>
     set (fst (fillReactionResponseBulk usersFromRows db1 [reactionRow 7 2 2, reactionRow 3 1 2]))"
proof -
  let ?lms = "[livestreamRow 2 1, livestreamRow 1 1, livestreamRow 2 1]"
  let ?rms = "[reactionRow 7 2 2, reactionRow 3 1 2]"
  have a: "SelectLivestreamTagsIn [2, 1, 2] \<in> set (fst (fillLivestreamResponseBulk usersFromRows db1 ?lms))"
    by (simp add: bulk_ex_defs bulk_defs)
  have b: "SelectLivestreamsIn [2, 2] \<in> set (fst (fillReactionResponseBulk usersFromRows db1 ?rms))"
    by (simp add: bulk_ex_defs bulk_defs)
  from bulk_key_lists_one_key_per_row[of ?lms usersFromRows db1 ?rms]
  have "hd (fst (fillLivestreamResponseBulk usersFromRows db1 ?lms)) = SelectUsersIn (map LivestreamModel.UserID ?lms)"
       "hd (fst (fillReactionResponseBulk usersFromRows db1 ?rms)) = SelectUsersIn (map ReactionModel.UserID ?rms)"
    by simp_all
  with a b show ?thesis by (simp add: livestreamRow_def reactionRow_def)
qed

lemma buildReactions_map:
  "\<forall>r\<in>set rms. userMap (ReactionModel.UserID r) \<noteq> None \<and> livestreamMap (ReactionModel.LivestreamID r) \<noteq> None \<Longrightarrow>
   buildReactions userMap livestreamMap rms =
     Inr (map (\<lambda>r. \<lparr>Reaction.ID = ReactionModel.ID r,
                      EmojiName = ReactionModel.EmojiName r,
                      User = the (userMap (ReactionModel.UserID r)),
                      Livestream = the (livestreamMap (ReactionModel.LivestreamID r)),
                      CreatedAt = ReactionModel.CreatedAt r\<rparr>) rms)"
  by (induction rms) auto

lemma buildLivestreams_ID:
  "buildLivestreams ownerMap livestreamTagMap tagMap acc lms = Inr m \<Longrightarrow> m k = Some l \<Longrightarrow>
     acc k = Some l \<or> Livestream.ID l = k"
proof (induction lms arbitrary: acc)
  case Nil
  then show ?case by simp
next
  case (Cons a lms)
  from Cons.prems(1) obtain owner tgs where
    "buildLivestreams ownerMap livestreamTagMap tagMap
       (acc(LivestreamModel.ID a \<mapsto>
          \<lparr>Livestream.ID = LivestreamModel.ID a, Owner = owner,
           Title = LivestreamModel.Title a, Description = LivestreamModel.Description a,
           PlaylistUrl = LivestreamModel.PlaylistUrl a, ThumbnailUrl = LivestreamModel.ThumbnailUrl a,
           Tags = tgs, StartAt = LivestreamModel.StartAt a, EndAt = LivestreamModel.EndAt a\<rparr>)) lms = Inr m"
    by (auto simp: Let_def split: option.splits sum.splits)
  from Cons.IH[OF this Cons.prems(2)] show ?case
    by (auto split: if_splits)
qed

lemma bulk_map_ID:
  assumes "snd (fillLivestreamResponseBulk fub db lms) = Inr m" "m k = Some l"
  shows "Livestream.ID l = k"
proof (cases "lms = []")
  case True
  with assms show ?thesis by (auto simp: fillLivestreamResponseBulk_def)
next
  case False
  with assms(1) obtain ownerMap livestreamTagMap tagMap where
    "buildLivestreams ownerMap livestreamTagMap tagMap Map.empty lms = Inr m"
    by (auto simp: fillLivestreamResponseBulk_def Let_def split: sum.splits)
  from buildLivestreams_ID[OF this assms(2)] show ?thesis by simp
qed

text \<open>
  C10. For a reaction whose user and livestream are stored, the function does not return
  a list when the livestream has no tags: the livestream aggregation fails on the empty
  list of tag ids, and the function returns "failed to process livestream responses".
  The single-entity path fills the same reaction.
\<close>

theorem reaction_bulk_fails_on_untagged_livestream:
  "map UserModel.ID (filter (\<lambda>u. UserModel.ID u = 2) (users db1)) = [2] \<and>
   map LivestreamModel.ID (filter (\<lambda>l. LivestreamModel.ID l = 3) (livestreams db1)) = [3] \<and>
   fillReactionResponseBulk usersFromRows db1 [reactionRow 1 2 3] =
     ([SelectUsersIn [2], SelectLivestreamsIn [3], SelectUsersIn [2], SelectLivestreamTagsIn [3]],
      Inl (Errorf ''failed to process livestream responses''
             (Errorf ''failed to build tag query'' ErrEmptySlice))) \<and>
   fillReactionResponse userFromRow db1 (reactionRow 1 2 3) =
     Inr \<lparr>Reaction.ID = 1, EmojiName = ''tada'', User = \<lparr>UserModel.ID = 2, Name = ''kamome''\<rparr>,
          Livestream =
            \<lparr>Livestream.ID = 3, Owner = \<lparr>UserModel.ID = 2, Name = ''kamome''\<rparr>,
             Title = ''title'', Description = ''description'', PlaylistUrl = ''playlist'',
             ThumbnailUrl = ''thumbnail'', Tags = [], StartAt = 1700874000, EndAt = 1700877600\<rparr>,
          CreatedAt = 1700874101\<rparr>"
  by (simp add: bulk_ex_defs bulk_defs fillReactionResponse_def)

text \<open>
  Where the two sub-aggregations have returned their maps and every reaction row's user
  id and livestream id is a key of them, the function returns a list as long as the
  input, whose i-th reaction has the id, emoji name and creation time of the i-th row,
  the user the map holds for that row's user id, and the livestream the map holds for
  that row's livestream id, which carries that id.
\<close>

lemma reaction_bulk_preserves_order:
  assumes "fub (filter (\<lambda>u. UserModel.ID u \<in> set (map ReactionModel.UserID reactionModels)) (users db)) = Inr userMap"
    and "snd (fillLivestreamResponseBulk fub db
           (filter (\<lambda>l. LivestreamModel.ID l \<in> set (map ReactionModel.LivestreamID reactionModels))
              (livestreams db))) = Inr livestreamMap"
    and "\<forall>r\<in>set reactionModels.
           userMap (ReactionModel.UserID r) \<noteq> None \<and> livestreamMap (ReactionModel.LivestreamID r) \<noteq> None"
  shows "\<exists>reactions.
           snd (fillReactionResponseBulk fub db reactionModels) = Inr reactions \<and>
           length reactions = length reactionModels \<and>
           (\<forall>i<length reactionModels.
              Reaction.ID (reactions ! i) = ReactionModel.ID (reactionModels ! i) \<and>
              Reaction.EmojiName (reactions ! i) = ReactionModel.EmojiName (reactionModels ! i) \<and>
              Reaction.CreatedAt (reactions ! i) = ReactionModel.CreatedAt (reactionModels ! i) \<and>
              userMap (ReactionModel.UserID (reactionModels ! i)) = Some (User (reactions ! i)) \<and>
              livestreamMap (ReactionModel.LivestreamID (reactionModels ! i)) = Some (Livestream (reactions ! i)) \<and>
              Livestream.ID (Livestream (reactions ! i)) = ReactionModel.LivestreamID (reactionModels ! i))"
proof (cases "reactionModels = []")
  case True
  then show ?thesis by (simp add: fillReactionResponseBulk_def)
next
  case False
  let ?mk = "\<lambda>r. \<lparr>Reaction.ID = ReactionModel.ID r,
                      EmojiName = ReactionModel.EmojiName r,
                      User = the (userMap (ReactionModel.UserID r)),
                      Livestream = the (livestreamMap (ReactionModel.LivestreamID r)),
                      CreatedAt = ReactionModel.CreatedAt r\<rparr>"
  have res: "snd (fillReactionResponseBulk fub db reactionModels) = Inr (map ?mk reactionModels)"
    using False assms(1,2) buildReactions_map[OF assms(3)]
    by (auto simp: fillReactionResponseBulk_def sqlx_In_def Let_def split: prod.splits sum.splits)
  have idx: "userMap (ReactionModel.UserID (reactionModels ! i)) = Some (User (map ?mk reactionModels ! i)) \<and>
             livestreamMap (ReactionModel.LivestreamID (reactionModels ! i)) = Some (Livestream (map ?mk reactionModels ! i)) \<and>
             Livestream.ID (Livestream (map ?mk reactionModels ! i)) = ReactionModel.LivestreamID (reactionModels ! i)"
    if "i < length reactionModels" for i
  proof -
    from that have "reactionModels ! i \<in> set reactionModels" by simp
    with assms(3) obtain u l where
      ul: "userMap (ReactionModel.UserID (reactionModels ! i)) = Some u"
          "livestreamMap (ReactionModel.LivestreamID (reactionModels ! i)) = Some l"
      by blast
    from bulk_map_ID[OF assms(2) ul(2)] ul that show ?thesis by simp
  qed
  from res idx show ?thesis by simp
qed

lemma reaction_bulk_preserves_order_example:
  "\<not> isl (snd (fillReactionResponseBulk usersFromRows db1
      [reactionRow 7 1 2, reactionRow 3 2 2, reactionRow 5 1 2])) \<and>
   length (projr (snd (fillReactionResponseBulk usersFromRows db1
      [reactionRow 7 1 2, reactionRow 3 2 2, reactionRow 5 1 2]))) = 3 \<and>
   Reaction.ID (projr (snd (fillReactionResponseBulk usersFromRows db1
      [reactionRow 7 1 2, reactionRow 3 2 2, reactionRow 5 1 2])) ! 0) = 7 \<and>
   Reaction.ID (projr (snd (fillReactionResponseBulk usersFromRows db1
      [reactionRow 7 1 2, reactionRow 3 2 2, reactionRow 5 1 2])) ! 1) = 3 \<and>
   Reaction.ID (projr (snd (fillReactionResponseBulk usersFromRows db1
      [reactionRow 7 1 2, reactionRow 3 2 2, reactionRow 5 1 2])) ! 2) = 5 \<and>
   User (projr (snd (fillReactionResponseBulk usersFromRows db1
      [reactionRow 7 1 2, reactionRow 3 2 2, reactionRow 5 1 2])) ! 1) =
     \<lparr>UserModel.ID = 2, Name = ''kamome''\<rparr>"
proof -
  let ?rms = "[reactionRow 7 1 2, reactionRow 3 2 2, reactionRow 5 1 2]"
  let ?userMap = "map_of (map (\<lambda>u. (UserModel.ID u, u))
      (filter (\<lambda>u. UserModel.ID u \<in> set (map ReactionModel.UserID ?rms)) (users db1)))"
  let ?livestreamMap = "[2 \<mapsto> \<lparr>Livestream.ID = 2, Owner = \<lparr>UserModel.ID = 1, Name = ''isucon''\<rparr>,
          Title = ''title'', Description = ''description'', PlaylistUrl = ''playlist'',
          ThumbnailUrl = ''thumbnail'',
          Tags = [\<lparr>Tag.ID = 2, Name = ''rust''\<rparr>, \<lparr>Tag.ID = 1, Name = ''go''\<rparr>],
          StartAt = 1700874000, EndAt = 1700877600\<rparr>]"
  have h1: "usersFromRows (filter (\<lambda>u. UserModel.ID u \<in> set (map ReactionModel.UserID ?rms)) (users db1)) =
      Inr ?userMap"
    by (simp add: usersFromRows_def)
  have h2: "snd (fillLivestreamResponseBulk usersFromRows db1
           (filter (\<lambda>l. LivestreamModel.ID l \<in> set (map ReactionModel.LivestreamID ?rms))
              (livestreams db1))) = Inr ?livestreamMap"
    by (simp add: bulk_ex_defs bulk_defs)
  have h3: "\<forall>r\<in>set ?rms.
           ?userMap (ReactionModel.UserID r) \<noteq> None \<and> ?livestreamMap (ReactionModel.LivestreamID r) \<noteq> None"
    by (simp add: bulk_ex_defs)
  from reaction_bulk_preserves_order[OF h1 h2 h3] obtain reactions where
    r: "snd (fillReactionResponseBulk usersFromRows db1 ?rms) = Inr reactions"
       "length reactions = length ?rms"
       "\<forall>i<length ?rms.
              Reaction.ID (reactions ! i) = ReactionModel.ID (?rms ! i) \<and>
              ?userMap (ReactionModel.UserID (?rms ! i)) = Some (User (reactions ! i))"
    by blast
  have "Reaction.ID (reactions ! 0) = 7"
    using r(3)[rule_format, of 0] by (simp add: bulk_ex_defs)
  moreover have "Reaction.ID (reactions ! 1) = 3" "User (reactions ! 1) = \<lparr>UserModel.ID = 2, Name = ''kamome''\<rparr>"
    using r(3)[rule_format, of 1] by (simp_all add: bulk_ex_defs)
  moreover have "Reaction.ID (reactions ! 2) = 5"
    using r(3)[rule_format, of 2] by (simp add: bulk_ex_defs)
  ultimately have "Reaction.ID (reactions ! 0) = 7" "Reaction.ID (reactions ! 1) = 3"
    "Reaction.ID (reactions ! 2) = 5" "User (reactions ! 1) = \<lparr>UserModel.ID = 2, Name = ''kamome''\<rparr>"
    by simp_all
  with r(1,2) show ?thesis by simp
qed

end
